theory Spec2Isabelle
  imports Complex_Main
begin

section \<open>JavaScript values\<close>

text \<open>
  The two scripts work on the values \<^verbatim>\<open>JSON.parse\<close> and the HTTP client hand them:
  \<^verbatim>\<open>null\<close>, booleans, numbers, strings, arrays and objects, and on \<^verbatim>\<open>undefined\<close>, which
  every read of a missing property produces. An object is the list of its own properties
  in enumeration order (the order \<^verbatim>\<open>Object.entries\<close> walks), each key once. A number is
  written at its mathematical value; strings are lists of characters, one \<open>char\<close> for each
  code unit.
\<close>

datatype jsval =
    JUndef
  | JNull
  | JBool bool
  | JNum rat
  | JStr string
  | JArr "jsval list"
  | JObj "(string \<times> jsval) list"

text \<open>The two exceptions the code under study can raise.\<close>

datatype error = TypeError | RangeError

definition bind_res :: "error + 'a \<Rightarrow> ('a \<Rightarrow> error + 'b) \<Rightarrow> error + 'b" where
  "bind_res m f = (case m of Inl e \<Rightarrow> Inl e | Inr x \<Rightarrow> f x)"

text \<open>Running a callback over the elements in order; the first exception ends the walk.\<close>

primrec mapM :: "('a \<Rightarrow> error + 'b) \<Rightarrow> 'a list \<Rightarrow> error + 'b list" where
  "mapM f [] = Inr []"
| "mapM f (x # xs) =
     (case f x of
        Inl e \<Rightarrow> Inl e
      | Inr y \<Rightarrow> (case mapM f xs of Inl e \<Rightarrow> Inl e | Inr ys \<Rightarrow> Inr (y # ys)))"

text \<open>\<^verbatim>\<open>!v\<close> is \<open>\<not> truthy v\<close>.\<close>

fun truthy :: "jsval \<Rightarrow> bool" where
  "truthy JUndef = False"
| "truthy JNull = False"
| "truthy (JBool b) = b"
| "truthy (JNum q) = (q \<noteq> 0)"
| "truthy (JStr s) = (s \<noteq> [])"
| "truthy (JArr xs) = True"
| "truthy (JObj kvs) = True"

fun nullish :: "jsval \<Rightarrow> bool" where
  "nullish JUndef = True"
| "nullish JNull = True"
| "nullish v = False"

text \<open>Decimal digits of a natural number, as array indices and date fields print.\<close>

definition digit :: "nat \<Rightarrow> char" where
  "digit n = ''0123456789'' ! n"

fun dec :: "nat \<Rightarrow> string" where
  "dec n = (if n < 10 then [digit n] else dec (n div 10) @ [digit (n mod 10)])"

declare dec.simps [simp del]

text \<open>
  The value of \<^verbatim>\<open>v.k\<close> for a field name \<open>k\<close> of the source, on a value that is neither
  \<^verbatim>\<open>null\<close> nor \<^verbatim>\<open>undefined\<close>: a boolean and a number have none of the names; an array
  and a string have \<^verbatim>\<open>length\<close>; an object has its own properties. None of the field
  names the two scripts read is an array index or a member of a built-in prototype other
  than \<^verbatim>\<open>length\<close>.
\<close>

fun dot :: "jsval \<Rightarrow> string \<Rightarrow> jsval" where
  "dot (JStr s) k = (if k = ''length'' then JNum (of_nat (length s)) else JUndef)"
| "dot (JArr xs) k = (if k = ''length'' then JNum (of_nat (length xs)) else JUndef)"
| "dot (JObj kvs) k = (case map_of kvs k of Some v \<Rightarrow> v | None \<Rightarrow> JUndef)"
| "dot v k = JUndef"

text \<open>\<^verbatim>\<open>v.k\<close>: reading a property of \<^verbatim>\<open>null\<close> or \<^verbatim>\<open>undefined\<close> raises a TypeError.\<close>

definition get :: "jsval \<Rightarrow> string \<Rightarrow> error + jsval" where
  "get v k = (if nullish v then Inl TypeError else Inr (dot v k))"

text \<open>\<^verbatim>\<open>v?.k\<close>: \<^verbatim>\<open>undefined\<close> when \<open>v\<close> is \<^verbatim>\<open>null\<close> or \<^verbatim>\<open>undefined\<close>.\<close>

definition opt_get :: "jsval \<Rightarrow> string \<Rightarrow> jsval" where
  "opt_get v k = (if nullish v then JUndef else dot v k)"

text \<open>\<^verbatim>\<open>v[i]\<close> for a numeric index.\<close>

fun index :: "jsval \<Rightarrow> nat \<Rightarrow> error + jsval" where
  "index JUndef i = Inl TypeError"
| "index JNull i = Inl TypeError"
| "index (JBool b) i = Inr JUndef"
| "index (JNum q) i = Inr JUndef"
| "index (JStr s) i = Inr (if i < length s then JStr [s ! i] else JUndef)"
| "index (JArr xs) i = Inr (if i < length xs then xs ! i else JUndef)"
| "index (JObj kvs) i = Inr (case map_of kvs (dec i) of Some v \<Rightarrow> v | None \<Rightarrow> JUndef)"

text \<open>\<^verbatim>\<open>a && f(a)\<close>: the left operand when it is falsy, the right one otherwise.\<close>

definition and_then :: "jsval \<Rightarrow> (jsval \<Rightarrow> error + jsval) \<Rightarrow> error + jsval" where
  "and_then v f = (if truthy v then f v else Inr v)"

fun isArray :: "jsval \<Rightarrow> bool" where
  "isArray (JArr xs) = True"
| "isArray v = False"

text \<open>
  \<^verbatim>\<open>v.map(f)\<close> and \<^verbatim>\<open>v.forEach(f)\<close> with \<open>f\<close> returning (or pushing) one record: only an
  array has the method; on any other value the call raises a TypeError (\<open>v.map\<close> is
  \<^verbatim>\<open>undefined\<close>, or an own property that is not a function).
\<close>

fun array_map :: "(jsval \<Rightarrow> error + 'b) \<Rightarrow> jsval \<Rightarrow> error + 'b list" where
  "array_map f (JArr xs) = mapM f xs"
| "array_map f v = Inl TypeError"

text \<open>\<^verbatim>\<open>Object.entries(v)\<close>.\<close>

fun entries :: "jsval \<Rightarrow> error + (string \<times> jsval) list" where
  "entries JUndef = Inl TypeError"
| "entries JNull = Inl TypeError"
| "entries (JBool b) = Inr []"
| "entries (JNum q) = Inr []"
| "entries (JStr s) = Inr (zip (map dec [0..<length s]) (map (\<lambda>c. JStr [c]) s))"
| "entries (JArr xs) = Inr (zip (map dec [0..<length xs]) xs)"
| "entries (JObj kvs) = Inr kvs"

text \<open>
  The parameter pattern \<^verbatim>\<open>[ts, volume]\<close>: the argument is iterated, so it must be an array
  or a string; the names missing from a short one are \<^verbatim>\<open>undefined\<close>.
\<close>

fun iterate :: "jsval \<Rightarrow> error + jsval list" where
  "iterate (JArr xs) = Inr xs"
| "iterate (JStr s) = Inr (map (\<lambda>c. JStr [c]) s)"
| "iterate v = Inl TypeError"

definition nth_or_undef :: "jsval list \<Rightarrow> nat \<Rightarrow> jsval" where
  "nth_or_undef xs i = (if i < length xs then xs ! i else JUndef)"

definition destructure2 :: "jsval \<Rightarrow> error + (jsval \<times> jsval)" where
  "destructure2 v = bind_res (iterate v) (\<lambda>xs. Inr (nth_or_undef xs 0, nth_or_undef xs 1))"

text \<open>
  An object literal whose values are fields of one object \<open>v\<close>:
  \<^verbatim>\<open>{ out1: v.in1, out2: v.in2, ... }\<close>, given as the list of (out, in) names.
\<close>

definition pick :: "jsval \<Rightarrow> (string \<times> string) list \<Rightarrow> error + (string \<times> jsval) list" where
  "pick v names = mapM (\<lambda>(out, inn). bind_res (get v inn) (\<lambda>x. Inr (out, x))) names"

section \<open>Dates\<close>

text \<open>
  \<^verbatim>\<open>new Date(ts * 1000)\<close> holds a time value in milliseconds since the epoch, or is
  invalid. For a whole number of seconds the product is exact up to the largest time value
  (8.64e15 ms) and beyond it the date is invalid; \<^verbatim>\<open>null\<close> and the booleans convert to
  0 and 1, \<^verbatim>\<open>undefined\<close> to NaN. What the language makes of the other values (rounding
  the product of a fraction, reading a string, an array or an object as a number) is the
  parameter \<open>coerce\<close>.
\<close>

datatype timeval = Invalid | TimeMs int

definition is_whole :: "rat \<Rightarrow> bool" where
  "is_whole q = (of_int \<lfloor>q\<rfloor> = q)"

definition dateFromSeconds :: "(jsval \<Rightarrow> timeval) \<Rightarrow> jsval \<Rightarrow> timeval" where
  "dateFromSeconds coerce ts =
     (case ts of
        JNum q \<Rightarrow>
          (if is_whole q
           then (if \<bar>\<lfloor>q\<rfloor>\<bar> \<le> 8640000000000 then TimeMs (\<lfloor>q\<rfloor> * 1000) else Invalid)
           else coerce ts)
      | JUndef \<Rightarrow> Invalid
      | JNull \<Rightarrow> TimeMs 0
      | JBool b \<Rightarrow> TimeMs (if b then 1000 else 0)
      | _ \<Rightarrow> coerce ts)"

text \<open>Left padding with zeros to a width.\<close>

definition pad :: "nat \<Rightarrow> nat \<Rightarrow> string" where
  "pad w n = replicate (w - length (dec n)) (CHR ''0'') @ dec n"

text \<open>
  The civil date of a day number (days since 1970-01-01, proleptic Gregorian calendar),
  as year, month and day of the month.
\<close>

definition civil :: "int \<Rightarrow> int \<times> int \<times> int" where
  "civil day =
     (let z = day + 719468;
          era = z div 146097;
          doe = z mod 146097;
          yoe = (doe - doe div 1460 + doe div 36524 - doe div 146096) div 365;
          doy = doe - (365 * yoe + yoe div 4 - yoe div 100);
          mp = (5 * doy + 2) div 153;
          d = doy - (153 * mp + 2) div 5 + 1;
          m = (if mp < 10 then mp + 3 else mp - 9);
          y = yoe + era * 400 + (if m \<le> 2 then 1 else 0)
      in (y, m, d))"

definition year_string :: "int \<Rightarrow> string" where
  "year_string y =
     (if 0 \<le> y \<and> y \<le> 9999 then pad 4 (nat y)
      else (if y < 0 then ''-'' else ''+'') @ pad 6 (nat \<bar>y\<bar>))"

definition date_part :: "int \<Rightarrow> string" where
  "date_part day =
     (case civil day of
        (y, m, d) \<Rightarrow> year_string y @ ''-'' @ pad 2 (nat m) @ ''-'' @ pad 2 (nat d))"

definition time_part :: "int \<Rightarrow> string" where
  "time_part ms =
     pad 2 (nat (ms div 3600000)) @ '':'' @ pad 2 (nat (ms div 60000 mod 60)) @ '':''
     @ pad 2 (nat (ms div 1000 mod 60)) @ ''.'' @ pad 3 (nat (ms mod 1000))"

text \<open>
  \<^verbatim>\<open>Date.prototype.toISOString\<close>: \<^verbatim>\<open>YYYY-MM-DDTHH:mm:ss.sssZ\<close> in UTC, a RangeError on an
  invalid date.
\<close>

definition isoString :: "int \<Rightarrow> string" where
  "isoString t =
     date_part (t div 86400000) @ ''T'' @ time_part (t mod 86400000) @ ''Z''"

definition toISOString :: "timeval \<Rightarrow> error + string" where
  "toISOString tv = (case tv of Invalid \<Rightarrow> Inl RangeError | TimeMs t \<Rightarrow> Inr (isoString t))"

section \<open>The transformation rules (data_formatter.js)\<close>

text \<open>\<^verbatim>\<open>data.metadata.collection_info.timestamp\<close>.\<close>

definition collection_timestamp :: "jsval \<Rightarrow> error + jsval" where
  "collection_timestamp data =
     bind_res (get data ''metadata'') (\<lambda>m.
     bind_res (get m ''collection_info'') (\<lambda>c.
     get c ''timestamp''))"

definition tvl_fields :: "(string \<times> string) list" where
  "tvl_fields =
     [(''protocol_name'', ''name''), (''protocol_id'', ''id''),
      (''protocol_symbol'', ''symbol''), (''protocol_url'', ''url''),
      (''description'', ''description''), (''chain'', ''chain''),
      (''category'', ''category''), (''tvl'', ''tvl''),
      (''tvl_change_1d'', ''change_1d''), (''tvl_change_7d'', ''change_7d''),
      (''tvl_change_1m'', ''change_1m''), (''audits'', ''audits''),
      (''audit_note'', ''audit_note''), (''mcap_tvl'', ''mcap_tvl''),
      (''forked'', ''forked''), (''module'', ''module''), (''listedAt'', ''listedAt'')]"

text \<open>The callback of a rule's \<^verbatim>\<open>map\<close>: the collection time, then the fields of the element.\<close>

definition flat_record :: "(string \<times> string) list \<Rightarrow> jsval \<Rightarrow> jsval \<Rightarrow> error + jsval" where
  "flat_record names data x =
     bind_res (collection_timestamp data) (\<lambda>t.
     bind_res (pick x names) (\<lambda>fs.
     Inr (JObj ((''timestamp'', t) # fs))))"

definition formatProtocolTvlData :: "jsval \<Rightarrow> error + jsval list" where
  "formatProtocolTvlData data =
     (if \<not> truthy data then Inr []
      else bind_res (get data ''data'') (\<lambda>d.
        if \<not> truthy d \<or> \<not> isArray d then Inr []
        else array_map (flat_record tvl_fields data) d))"

text \<open>
  The DEX volume rule pushes three runs of records onto one array. The first run: one
  record for each element of \<^verbatim>\<open>data.data.totalDataChart\<close>, when that field is truthy.
\<close>

definition historical_record :: "(jsval \<Rightarrow> timeval) \<Rightarrow> jsval \<Rightarrow> error + jsval" where
  "historical_record coerce e =
     bind_res (destructure2 e) (\<lambda>(ts, volume).
     bind_res (toISOString (dateFromSeconds coerce ts)) (\<lambda>iso.
     Inr (JObj [(''timestamp'', JStr iso), (''total_volume'', volume),
                (''type'', JStr ''historical_total'')])))"

definition historical_section :: "(jsval \<Rightarrow> timeval) \<Rightarrow> jsval \<Rightarrow> error + jsval list" where
  "historical_section coerce d =
     bind_res (get d ''totalDataChart'') (\<lambda>chart.
       if truthy chart then array_map (historical_record coerce) chart else Inr [])"

text \<open>\<^verbatim>\<open>data.data.protocols && data.data.protocols[0]\<close>.\<close>

definition first_protocol :: "jsval \<Rightarrow> error + jsval" where
  "first_protocol d =
     bind_res (get d ''protocols'') (\<lambda>ps. and_then ps (\<lambda>p. index p 0))"

definition dex_change_fields :: "(string \<times> string) list" where
  "dex_change_fields =
     [(''volume_24h_change'', ''change_1d''), (''volume_7d_change'', ''change_7dover7d''),
      (''volume_30d_change'', ''change_30dover30d'')]"

definition dex_record :: "jsval \<Rightarrow> jsval \<Rightarrow> string \<Rightarrow> string \<times> jsval \<Rightarrow> error + jsval" where
  "dex_record timestamp p0 chain = (\<lambda>(dexName, volume).
     bind_res (pick p0 dex_change_fields) (\<lambda>fs.
     Inr (JObj ([(''timestamp'', timestamp), (''type'', JStr ''dex_specific''),
                 (''dex_name'', JStr dexName), (''chain'', JStr chain),
                 (''volume_24h'', volume)] @ fs))))"

text \<open>The inner \<^verbatim>\<open>forEach\<close>: the records of one chain.\<close>

definition chain_records :: "jsval \<Rightarrow> jsval \<Rightarrow> string \<times> jsval \<Rightarrow> error + jsval list" where
  "chain_records timestamp p0 = (\<lambda>(chain, dexes).
     bind_res (entries dexes) (\<lambda>des. mapM (dex_record timestamp p0 chain) des))"

text \<open>
  The second run: the first protocol entry's \<^verbatim>\<open>breakdown24h\<close>, chain by chain. The
  condition and the body read the same path \<^verbatim>\<open>data.data.protocols[0].breakdown24h\<close>; it
  is read once here.
\<close>

definition dex_section :: "jsval \<Rightarrow> jsval \<Rightarrow> error + jsval list" where
  "dex_section timestamp d =
     bind_res (first_protocol d) (\<lambda>p0.
     bind_res (and_then p0 (\<lambda>p. get p ''breakdown24h'')) (\<lambda>breakdown.
       if truthy breakdown
       then bind_res (entries breakdown) (\<lambda>ces.
            bind_res (mapM (chain_records timestamp p0) ces) (\<lambda>rss. Inr (concat rss)))
       else Inr []))"

definition summary_fields :: "(string \<times> string) list" where
  "summary_fields =
     [(''total_24h'', ''total24h''), (''total_48h_to_24h'', ''total48hto24h''),
      (''total_7d'', ''total7d''), (''total_14d_to_7d'', ''total14dto7d''),
      (''total_30d'', ''total30d''), (''total_60d_to_30d'', ''total60dto30d''),
      (''total_1y'', ''total1y''), (''total_alltime'', ''totalAllTime''),
      (''average_1y'', ''average1y''), (''volume_24h_change'', ''change_1d''),
      (''volume_7d_change'', ''change_7d''), (''volume_1m_change'', ''change_1m''),
      (''volume_7d_over_7d_change'', ''change_7dover7d''),
      (''volume_30d_over_30d_change'', ''change_30dover30d'')]"

text \<open>The third run: one summary record when the first protocol entry is truthy.\<close>

definition summary_section :: "jsval \<Rightarrow> jsval \<Rightarrow> error + jsval list" where
  "summary_section timestamp d =
     bind_res (first_protocol d) (\<lambda>summary.
       if truthy summary
       then bind_res (pick summary summary_fields) (\<lambda>fs.
            Inr [JObj ([(''timestamp'', timestamp), (''type'', JStr ''volume_summary'')] @ fs)])
       else Inr [])"

definition formatDexVolumeData :: "(jsval \<Rightarrow> timeval) \<Rightarrow> jsval \<Rightarrow> error + jsval list" where
  "formatDexVolumeData coerce data =
     (if \<not> truthy data then Inr []
      else bind_res (get data ''data'') (\<lambda>d.
        if \<not> truthy d then Inr []
        else bind_res (collection_timestamp data) (\<lambda>timestamp.
             bind_res (historical_section coerce d) (\<lambda>hist.
             bind_res (dex_section timestamp d) (\<lambda>dexs.
             bind_res (summary_section timestamp d) (\<lambda>summ.
             Inr (hist @ dexs @ summ)))))))"

definition pool_fields :: "(string \<times> string) list" where
  "pool_fields =
     [(''chain'', ''chain''), (''project'', ''project''), (''symbol'', ''symbol''),
      (''tvl_usd'', ''tvlUsd''), (''apy_base'', ''apyBase''), (''apy_reward'', ''apyReward''),
      (''apy'', ''apy''), (''reward_tokens'', ''rewardTokens''), (''il_risk'', ''ilRisk''),
      (''exposure'', ''exposure'')]"

text \<open>
  The nested literal of the yield pool record:
  \<^verbatim>\<open>{ predictedClass: pool.predictions?.predictedClass, ... }\<close>.
\<close>

definition prediction_fields :: "string list" where
  "prediction_fields = [''predictedClass'', ''predictedProbability'', ''binnedConfidence'']"

definition predictions :: "jsval \<Rightarrow> error + jsval" where
  "predictions pool =
     bind_res (mapM (\<lambda>k. bind_res (get pool ''predictions'') (\<lambda>p. Inr (k, opt_get p k)))
                 prediction_fields)
       (\<lambda>fs. Inr (JObj fs))"

definition pool_record :: "jsval \<Rightarrow> jsval \<Rightarrow> error + jsval" where
  "pool_record data pool =
     bind_res (collection_timestamp data) (\<lambda>t.
     bind_res (pick pool pool_fields) (\<lambda>fs.
     bind_res (predictions pool) (\<lambda>pr.
     Inr (JObj ((''timestamp'', t) # fs @ [(''predictions'', pr)])))))"

definition formatYieldPoolData :: "jsval \<Rightarrow> error + jsval list" where
  "formatYieldPoolData data =
     (if \<not> truthy data then Inr []
      else bind_res (get data ''data'') (\<lambda>d.
        if \<not> truthy d then Inr []
        else bind_res (get d ''data'') (\<lambda>dd.
          if \<not> truthy dd \<or> \<not> isArray dd then Inr []
          else array_map (pool_record data) dd)))"

definition coin_fields :: "(string \<times> string) list" where
  "coin_fields =
     [(''id'', ''id''), (''name'', ''name''), (''symbol'', ''symbol''), (''price'', ''price''),
      (''circulating_supply'', ''circulating''), (''market_cap'', ''peggedUSD''),
      (''chains'', ''chains''), (''peg_type'', ''pegType''),
      (''peg_mechanism'', ''pegMechanism''), (''price_change_24h'', ''priceChange24h''),
      (''market_cap_change_24h'', ''marketCapChange24h''),
      (''circulating_change_24h'', ''circulatingChange24h''),
      (''circulating_change_7d'', ''circulatingChange7d''),
      (''circulating_change_1m'', ''circulatingChange1m'')]"

definition formatStablecoinData :: "jsval \<Rightarrow> error + jsval list" where
  "formatStablecoinData data =
     (if \<not> truthy data then Inr []
      else bind_res (get data ''data'') (\<lambda>d.
        if \<not> truthy d then Inr []
        else bind_res (get d ''peggedAssets'') (\<lambda>pa.
          if \<not> truthy pa \<or> \<not> isArray pa then Inr []
          else array_map (flat_record coin_fields data) pa)))"

definition fee_fields :: "(string \<times> string) list" where
  "fee_fields =
     [(''protocol_name'', ''name''), (''protocol_slug'', ''slug''),
      (''category'', ''category''), (''total_fees_24h'', ''totalFees24h''),
      (''total_revenue_24h'', ''totalRevenue24h''), (''fees_change_24h'', ''feesChange24h''),
      (''revenue_change_24h'', ''revenueChange24h'')]"

definition formatProtocolFeeData :: "jsval \<Rightarrow> error + jsval list" where
  "formatProtocolFeeData data =
     (if \<not> truthy data then Inr []
      else bind_res (get data ''data'') (\<lambda>d.
        if \<not> truthy d then Inr []
        else bind_res (get d ''protocols'') (\<lambda>ps.
          if \<not> isArray ps then Inr []
          else array_map (flat_record fee_fields data) ps)))"

section \<open>The batch driver (data_formatter.js)\<close>

text \<open>
  The scripts act on a file system and a console. A file holds its text; writing a file
  replaces it. The file system is taken as one on which a write to a path under a
  directory that was just ensured succeeds. \<^verbatim>\<open>JSON.parse\<close> and \<^verbatim>\<open>JSON.stringify\<close>
  are parameters: \<open>parse\<close> is \<open>None\<close> where \<^verbatim>\<open>JSON.parse\<close> raises a SyntaxError.
\<close>

datatype log_entry = Info string | Err string

record world =
  files :: "string \<rightharpoonup> string"
  dirs :: "string set"
  console :: "log_entry list"

definition say :: "log_entry \<Rightarrow> world \<Rightarrow> world" where
  "say l w = w\<lparr>console := console w @ [l]\<rparr>"

definition existsSync :: "string \<Rightarrow> world \<Rightarrow> bool" where
  "existsSync p w = (p \<in> dirs w \<or> p \<in> dom (files w))"

definition mkdirSync :: "string \<Rightarrow> world \<Rightarrow> world" where
  "mkdirSync p w = w\<lparr>dirs := insert p (dirs w)\<rparr>"

definition writeFileSync :: "string \<Rightarrow> string \<Rightarrow> world \<Rightarrow> world" where
  "writeFileSync p text w = w\<lparr>files := (files w)(p \<mapsto> text)\<rparr>"

definition ensure_dir :: "string \<Rightarrow> world \<Rightarrow> world" where
  "ensure_dir p w = (if \<not> existsSync p w then mkdirSync p w else w)"

text \<open>
  \<^verbatim>\<open>readJsonFile\<close>: the parsed file, or \<^verbatim>\<open>null\<close> and an error line when the file cannot be
  read or parsed (the line ends with the exception's own text, which is left out).
\<close>

definition readJsonFile :: "(string \<Rightarrow> jsval option) \<Rightarrow> string \<Rightarrow> world \<Rightarrow> jsval \<times> world" where
  "readJsonFile parse filePath w =
     (case files w filePath of
        None \<Rightarrow> (JNull, say (Err (''Error reading file '' @ filePath @ '':'')) w)
      | Some rawData \<Rightarrow>
          (case parse rawData of
             None \<Rightarrow> (JNull, say (Err (''Error reading file '' @ filePath @ '':'')) w)
           | Some v \<Rightarrow> (v, w)))"

record category =
  inputFile :: string
  outputFile :: string
  processor :: "jsval \<Rightarrow> error + jsval list"

definition dataFiles :: "(jsval \<Rightarrow> timeval) \<Rightarrow> category list" where
  "dataFiles coerce =
     [\<lparr>inputFile = ''data/protocols/tvl/tvl_2025-04-15T22-09-43.110634.json'',
       outputFile = ''raw_data/protocols_tvl_raw.json'',
       processor = formatProtocolTvlData\<rparr>,
      \<lparr>inputFile = ''data/dex/volumes/volumes_2025-04-15T22-09-43.495076.json'',
       outputFile = ''raw_data/dex_volumes_raw.json'',
       processor = formatDexVolumeData coerce\<rparr>,
      \<lparr>inputFile = ''data/yields/pools/pools_2025-04-15T22-09-44.415408.json'',
       outputFile = ''raw_data/yield_pools_raw.json'',
       processor = formatYieldPoolData\<rparr>,
      \<lparr>inputFile = ''data/stablecoins/market/market_2025-04-15T22-09-44.879170.json'',
       outputFile = ''raw_data/stablecoins_raw.json'',
       processor = formatStablecoinData\<rparr>,
      \<lparr>inputFile = ''data/protocols/fees/fees_2025-04-15T22-09-45.145733.json'',
       outputFile = ''raw_data/protocol_fees_raw.json'',
       processor = formatProtocolFeeData\<rparr>]"

text \<open>
  The body of the driver's \<^verbatim>\<open>forEach\<close> for one category. An exception of the rule is not
  caught: it leaves the callback with the world as it is at that point.
\<close>

definition process_entry ::
  "(string \<Rightarrow> jsval option) \<Rightarrow> (jsval \<Rightarrow> string) \<Rightarrow> category \<Rightarrow> world \<Rightarrow> error option \<times> world"
where
  "process_entry parse stringify c w =
     (let w1 = say (Info (''Processing '' @ inputFile c @ ''...'')) w;
          (data, w2) = readJsonFile parse (inputFile c) w1
      in if truthy data
         then (case processor c data of
                 Inl e \<Rightarrow> (Some e, w2)
               | Inr formattedData \<Rightarrow>
                   if length formattedData > 0
                   then (None,
                         say (Info (''Formatted data saved to '' @ outputFile c @ '' (''
                                    @ dec (length formattedData) @ '' entries)''))
                           (writeFileSync (outputFile c) (stringify (JArr formattedData)) w2))
                   else (None, say (Info (''Warning: No data found in '' @ inputFile c)) w2))
         else (None, say (Info (''Error: Could not read '' @ inputFile c)) w2))"

text \<open>The \<^verbatim>\<open>forEach\<close> over the categories: an exception ends it.\<close>

fun process_entries ::
  "(string \<Rightarrow> jsval option) \<Rightarrow> (jsval \<Rightarrow> string) \<Rightarrow> category list \<Rightarrow> world \<Rightarrow> error option \<times> world"
where
  "process_entries parse stringify [] w = (None, w)"
| "process_entries parse stringify (c # cs) w =
     (case process_entry parse stringify c w of
        (Some e, w') \<Rightarrow> (Some e, w')
      | (None, w') \<Rightarrow> process_entries parse stringify cs w')"

definition processAllData ::
  "(string \<Rightarrow> jsval option) \<Rightarrow> (jsval \<Rightarrow> string) \<Rightarrow> (jsval \<Rightarrow> timeval) \<Rightarrow> world \<Rightarrow> error option \<times> world"
where
  "processAllData parse stringify coerce w =
     (case process_entries parse stringify (dataFiles coerce) (ensure_dir ''./raw_data'' w) of
        (Some e, w') \<Rightarrow> (Some e, w')
      | (None, w') \<Rightarrow> (None, say (Info ''All data formatting completed!'') w'))"

section \<open>The collector (index.js)\<close>

text \<open>
  The network is the parameter \<open>http\<close>: the decoded body of a GET on a URL, or the
  message of the exception the client raises.
\<close>

definition BASE_URL :: string where "BASE_URL = ''https://api.llama.fi''"
definition STABLECOINS_URL :: string where "STABLECOINS_URL = ''https://stablecoins.llama.fi''"
definition YIELDS_URL :: string where "YIELDS_URL = ''https://yields.llama.fi''"

definition fetchData :: "(string \<Rightarrow> string + jsval) \<Rightarrow> string \<Rightarrow> world \<Rightarrow> jsval \<times> world" where
  "fetchData http url w =
     (case http url of
        Inr body \<Rightarrow> (body, w)
      | Inl message \<Rightarrow>
          (JNull, say (Err (''Error fetching data from '' @ url @ '': '' @ message)) w))"

definition saveData :: "(jsval \<Rightarrow> string) \<Rightarrow> jsval \<Rightarrow> string \<Rightarrow> world \<Rightarrow> world" where
  "saveData stringify data filename w =
     say (Info (''Data saved to ./data/'' @ filename @ ''.json''))
       (writeFileSync (''./data/'' @ filename @ ''.json'') (stringify data) w)"

text \<open>The shape the five category fetches share: announce, fetch, save and return a truthy
  body, return \<^verbatim>\<open>null\<close> otherwise.\<close>

definition fetch_category ::
  "(string \<Rightarrow> string + jsval) \<Rightarrow> (jsval \<Rightarrow> string) \<Rightarrow> string \<Rightarrow> string \<Rightarrow> string \<Rightarrow> world
     \<Rightarrow> jsval \<times> world"
where
  "fetch_category http stringify announce url filename w =
     (let (data, w1) = fetchData http url (say (Info announce) w)
      in if truthy data then (data, saveData stringify data filename w1) else (JNull, w1))"

definition fetchProtocolTVL where
  "fetchProtocolTVL http stringify =
     fetch_category http stringify ''Fetching protocol TVL data...''
       (BASE_URL @ ''/protocols'') ''protocols_tvl''"

definition fetchDEXVolumes where
  "fetchDEXVolumes http stringify =
     fetch_category http stringify ''Fetching DEX volume data...''
       (BASE_URL @ ''/overview/dexs'') ''dex_volumes''"

definition fetchYieldPools where
  "fetchYieldPools http stringify =
     fetch_category http stringify ''Fetching yield pool data...''
       (YIELDS_URL @ ''/pools'') ''yield_pools''"

definition fetchStablecoinData where
  "fetchStablecoinData http stringify =
     fetch_category http stringify ''Fetching stablecoin data...''
       (STABLECOINS_URL @ ''/stablecoins'') ''stablecoins''"

definition fetchFeeData where
  "fetchFeeData http stringify =
     fetch_category http stringify ''Fetching protocol fee data...''
       (BASE_URL @ ''/overview/fees'') ''protocol_fees''"

text \<open>\<^verbatim>\<open>v || 0\<close>.\<close>

definition or_zero :: "jsval \<Rightarrow> jsval" where
  "or_zero v = (if truthy v then v else JNum 0)"

record summary =
  protocolCount :: jsval
  dexCount :: jsval
  poolCount :: jsval
  stablecoinCount :: jsval
  feeProtocolCount :: jsval

definition fetchAllData ::
  "(string \<Rightarrow> string + jsval) \<Rightarrow> (jsval \<Rightarrow> string) \<Rightarrow> world \<Rightarrow> summary \<times> world"
where
  "fetchAllData http stringify w =
     (let w0 = ensure_dir ''./data'' w;
          (protocols, w1) = fetchProtocolTVL http stringify w0;
          (dexVolumes, w2) = fetchDEXVolumes http stringify w1;
          (yieldPools, w3) = fetchYieldPools http stringify w2;
          (stablecoins, w4) = fetchStablecoinData http stringify w3;
          (fees, w5) = fetchFeeData http stringify w4;
          w6 = say (Info ''All data fetching completed!'') w5
      in (\<lparr>protocolCount = or_zero (opt_get protocols ''length''),
           dexCount = or_zero (opt_get (opt_get dexVolumes ''protocols'') ''length''),
           poolCount = or_zero (opt_get yieldPools ''length''),
           stablecoinCount = or_zero (opt_get stablecoins ''length''),
           feeProtocolCount = or_zero (opt_get (opt_get fees ''protocols'') ''length'')\<rparr>,
          w6))"

section \<open>Documents by their structure\<close>

text \<open>
  Following a path of keys through nested objects: the value at the end, \<open>None\<close> as soon
  as a value on the way is not an object or lacks the key.
\<close>

fun descend :: "jsval \<Rightarrow> string list \<Rightarrow> jsval option" where
  "descend v [] = Some v"
| "descend (JObj kvs) (k # ks) = (case map_of kvs k of Some x \<Rightarrow> descend x ks | None \<Rightarrow> None)"
| "descend v (k # ks) = None"

text \<open>The list a path leads to, when it leads to one.\<close>

definition list_at :: "jsval \<Rightarrow> string list \<Rightarrow> jsval list option" where
  "list_at doc path = (case descend doc path of Some (JArr xs) \<Rightarrow> Some xs | _ \<Rightarrow> None)"

text \<open>The collection time a document declares.\<close>

definition declared_time :: "jsval \<Rightarrow> jsval option" where
  "declared_time doc = descend doc [''metadata'', ''collection_info'', ''timestamp'']"

text \<open>The fields a record copies from an element \<open>x\<close>, under their output names.\<close>

definition selected :: "(string \<times> string) list \<Rightarrow> jsval \<Rightarrow> (string \<times> jsval) list" where
  "selected names x = map (\<lambda>(out, inn). (out, dot x inn)) names"

text \<open>
  A well-formed document of a list rule: it declares its collection time, and the path of
  the rule leads to a list none of whose elements is \<^verbatim>\<open>null\<close>.
\<close>

definition wf_list_doc :: "string list \<Rightarrow> jsval \<Rightarrow> bool" where
  "wf_list_doc path doc =
     (declared_time doc \<noteq> None \<and>
      (case list_at doc path of Some xs \<Rightarrow> list_all (\<lambda>x. \<not> nullish x) xs | None \<Rightarrow> False))"

definition entries_of :: "jsval \<Rightarrow> (string \<times> jsval) list" where
  "entries_of v = (case entries v of Inr es \<Rightarrow> es | Inl e \<Rightarrow> [])"

text \<open>
  A point of the time series: an array that starts with a whole number of seconds whose
  date exists.
\<close>

definition wf_point :: "jsval \<Rightarrow> bool" where
  "wf_point e =
     (case e of
        JArr (JNum q # rest) \<Rightarrow> is_whole q \<and> \<bar>\<lfloor>q\<rfloor>\<bar> \<le> 8640000000000
      | _ \<Rightarrow> False)"

definition wf_chart :: "jsval \<Rightarrow> bool" where
  "wf_chart c = (case c of JArr es \<Rightarrow> list_all wf_point es | _ \<Rightarrow> \<not> truthy c)"

definition list_or_falsy :: "jsval \<Rightarrow> bool" where
  "list_or_falsy v = (case v of JArr xs \<Rightarrow> True | _ \<Rightarrow> \<not> truthy v)"

text \<open>The first element of \<^verbatim>\<open>protocols\<close>, \<^verbatim>\<open>undefined\<close> when there is none.\<close>

definition first_entry :: "jsval \<Rightarrow> jsval" where
  "first_entry d = (case dot d ''protocols'' of JArr (p # rest) \<Rightarrow> p | _ \<Rightarrow> JUndef)"

text \<open>A breakdown: absent, or a mapping none of whose values is \<^verbatim>\<open>null\<close>.\<close>

definition wf_breakdown :: "jsval \<Rightarrow> bool" where
  "wf_breakdown b = (\<not> truthy b \<or> list_all (\<lambda>cd. \<not> nullish (snd cd)) (entries_of b))"

text \<open>
  A well-formed document of the DEX volume rule: it declares its collection time, and each
  of the three sections of \<^verbatim>\<open>data\<close> is absent or has its shape.
\<close>

definition wf_dex_doc :: "jsval \<Rightarrow> bool" where
  "wf_dex_doc doc =
     (declared_time doc \<noteq> None \<and>
      (let d = dot doc ''data''
       in wf_chart (dot d ''totalDataChart'') \<and> list_or_falsy (dot d ''protocols'') \<and>
          wf_breakdown (dot (first_entry d) ''breakdown24h'')))"

definition has_type :: "string \<Rightarrow> jsval \<Rightarrow> bool" where
  "has_type ty r = (dot r ''type'' = JStr ty)"

text \<open>The \<^verbatim>\<open>dex_specific\<close> records of the chains \<open>ces\<close> of a first entry \<open>p0\<close>.\<close>

definition dex_records :: "jsval \<Rightarrow> jsval \<Rightarrow> (string \<times> jsval) list \<Rightarrow> jsval list" where
  "dex_records t p0 ces =
     concat (map (\<lambda>(chain, dexes). map (\<lambda>(dexName, volume).
        JObj [(''timestamp'', t), (''type'', JStr ''dex_specific''),
              (''dex_name'', JStr dexName), (''chain'', JStr chain), (''volume_24h'', volume),
              (''volume_24h_change'', dot p0 ''change_1d''),
              (''volume_7d_change'', dot p0 ''change_7dover7d''),
              (''volume_30d_change'', dot p0 ''change_30dover30d'')]) (entries_of dexes)) ces)"

text \<open>
  A coercion for the examples, none of which consults it, and a serialiser for the runs.
\<close>

definition no_coerce :: "jsval \<Rightarrow> timeval" where
  "no_coerce v = Invalid"

definition example_stringify :: "jsval \<Rightarrow> string" where
  "example_stringify v = ''new''"

text \<open>A document with the time series \<^verbatim>\<open>[[1460419200, 1000000]]\<close> and nothing else.\<close>

definition example_dex_doc :: jsval where
  "example_dex_doc =
     JObj [(''data'', JObj [(''totalDataChart'', JArr [JArr [JNum 1460419200, JNum 1000000]])]),
           (''metadata'', JObj [(''collection_info'',
              JObj [(''timestamp'', JStr ''2025-04-15T22:09:43.495076'')])])]"

text \<open>A protocol TVL document with two protocols.\<close>

definition example_tvl_doc :: jsval where
  "example_tvl_doc =
     JObj [(''data'', JArr [JObj [(''name'', JStr ''Aave''), (''tvl'', JNum 5)], JObj []]),
           (''metadata'', JObj [(''collection_info'',
              JObj [(''timestamp'', JStr ''2025-04-15T22:09:43.110634'')])])]"

text \<open>
  A DEX volume document whose first protocol entry has the breakdown
  \<^verbatim>\<open>{"ethereum": {"uniswap": 500, "curve": 300}}\<close>, and a second entry with a breakdown
  of its own.
\<close>

definition example_breakdown_doc :: jsval where
  "example_breakdown_doc =
     JObj [(''data'', JObj [(''protocols'', JArr
              [JObj [(''breakdown24h'', JObj [(''ethereum'',
                       JObj [(''uniswap'', JNum 500), (''curve'', JNum 300)])]),
                     (''change_1d'', JNum 2), (''total24h'', JNum 800)],
               JObj [(''breakdown24h'', JObj [(''bsc'', JObj [(''pancakeswap'', JNum 70)])])]])]),
           (''metadata'', JObj [(''collection_info'',
              JObj [(''timestamp'', JStr ''2025-04-15T22:09:43.495076'')])])]"

text \<open>A yield pool document: one pool with predictions, one without.\<close>

definition example_pool_doc :: jsval where
  "example_pool_doc =
     JObj [(''data'', JObj [(''status'', JStr ''success''), (''data'', JArr
              [JObj [(''chain'', JStr ''Ethereum''),
                     (''predictions'', JObj [(''predictedClass'', JStr ''Stable/Up'')])],
               JObj [(''chain'', JStr ''Arbitrum'')]])]),
           (''metadata'', JObj [(''collection_info'',
              JObj [(''timestamp'', JStr ''2025-04-15T22:09:44.415408'')])])]"


text \<open>The nested \<^verbatim>\<open>predictions\<close> object of the record of a pool.\<close>

definition predicted :: "jsval \<Rightarrow> jsval" where
  "predicted pool = JObj (map (\<lambda>k. (k, opt_get (dot pool ''predictions'') k)) prediction_fields)"

text \<open>What a category fetch returns for the outcome of its request.\<close>

definition payload :: "string + jsval \<Rightarrow> jsval" where
  "payload r = (case r of Inr body \<Rightarrow> if truthy body then body else JNull | Inl m \<Rightarrow> JNull)"

text \<open>
  Three networks: one that answers every request with lists, one whose answers have the
  shapes of error bodies and of wrapped lists, and one on which every request fails.
\<close>

definition http_down :: "string \<Rightarrow> string + jsval" where
  "http_down url = Inl ''timeout''"

definition http_ok :: "string \<Rightarrow> string + jsval" where
  "http_ok url =
     (if url = ''https://api.llama.fi/protocols'' then Inr (JArr [JObj [], JObj []])
      else if url = ''https://api.llama.fi/overview/dexs''
        then Inr (JObj [(''protocols'', JArr [JObj [], JObj [], JObj []])])
      else if url = ''https://yields.llama.fi/pools'' then Inr (JArr [JObj []])
      else if url = ''https://stablecoins.llama.fi/stablecoins'' then Inr (JArr [])
      else Inr (JObj [(''protocols'', JArr [JObj []])]))"

definition http_shapes :: "string \<Rightarrow> string + jsval" where
  "http_shapes url =
     (if url = ''https://yields.llama.fi/pools''
        then Inr (JObj [(''status'', JStr ''success''), (''data'', JArr [JObj []])])
      else if url = ''https://stablecoins.llama.fi/stablecoins''
        then Inr (JObj [(''peggedAssets'', JArr [JObj []])])
      else Inr (JObj [(''error'', JStr ''rate limited'')]))"

definition empty_world :: world where
  "empty_world = \<lparr>files = Map.empty, dirs = {}, console = []\<rparr>"

text \<open>
  The text the driver writes for a category, given the world it reads the input from:
  none when the input is unreadable or falsy, when the rule raises, and when the rule
  returns no record.
\<close>

definition written ::
  "(string \<Rightarrow> jsval option) \<Rightarrow> (jsval \<Rightarrow> string) \<Rightarrow> category \<Rightarrow> world \<Rightarrow> string option"
where
  "written parse stringify c w =
     (let data = fst (readJsonFile parse (inputFile c) w)
      in if truthy data
         then (case processor c data of
                 Inr recs \<Rightarrow> if recs \<noteq> [] then Some (stringify (JArr recs)) else None
               | Inl e \<Rightarrow> None)
         else None)"

text \<open>
  A run of the driver: the TVL input holds a document with two protocols, the DEX input
  an empty object, the other inputs are missing, and an older DEX output exists.
\<close>

definition example_parse :: "string \<Rightarrow> jsval option" where
  "example_parse text =
     (if text = ''tvl'' then Some example_tvl_doc
      else if text = ''{}'' then Some (JObj [])
      else None)"

definition example_world :: world where
  "example_world =
     \<lparr>files = [''data/protocols/tvl/tvl_2025-04-15T22-09-43.110634.json'' \<mapsto> ''tvl'',
               ''data/dex/volumes/volumes_2025-04-15T22-09-43.495076.json'' \<mapsto> ''{}'',
               ''raw_data/dex_volumes_raw.json'' \<mapsto> ''old''],
      dirs = {}, console = []\<rparr>"

section \<open>Basic facts\<close>

lemma bind_res_simps [simp]:
  "bind_res (Inr x) f = f x" "bind_res (Inl e) f = Inl e"
  by (simp_all add: bind_res_def)

lemma truthy_not_nullish: "truthy v \<Longrightarrow> \<not> nullish v"
  by (cases v) simp_all

lemma get_ok [simp]: "\<not> nullish v \<Longrightarrow> get v k = Inr (dot v k)"
  by (simp add: get_def)

lemma get_nullish [simp]: "nullish v \<Longrightarrow> get v k = Inl TypeError"
  by (simp add: get_def)

lemma mapM_total: "(\<And>x. x \<in> set xs \<Longrightarrow> f x = Inr (g x)) \<Longrightarrow> mapM f xs = Inr (map g xs)"
  by (induction xs) simp_all

lemma pick_ok: "\<not> nullish v \<Longrightarrow> pick v names = Inr (selected names v)"
  unfolding pick_def selected_def by (rule mapM_total) (simp add: case_prod_beta)

lemma descend_Cons: "descend v (k # ks) = Some x \<Longrightarrow> \<exists>kvs y. v = JObj kvs \<and> map_of kvs k = Some y \<and> descend y ks = Some x"
  by (cases v) (simp_all split: option.splits)

lemma declared_time_ok: "declared_time doc = Some t \<Longrightarrow> collection_timestamp doc = Inr t"
  unfolding declared_time_def collection_timestamp_def
  by (auto dest!: descend_Cons)

lemma flat_record_ok:
  "declared_time doc = Some t \<Longrightarrow> \<not> nullish x \<Longrightarrow>
   flat_record names doc x = Inr (JObj ((''timestamp'', t) # selected names x))"
  by (simp add: flat_record_def declared_time_ok pick_ok)

lemma descend_step:
  "descend v (k # ks) = (case descend v [k] of Some x \<Rightarrow> descend x ks | None \<Rightarrow> None)"
  by (cases v) (simp_all split: option.splits)

lemma dot_descend:
  "k \<noteq> ''length'' \<Longrightarrow> dot v k = (case descend v [k] of Some x \<Rightarrow> x | None \<Rightarrow> JUndef)"
  by (cases v) (simp_all split: option.splits)

lemma descend_truthy: "descend v (k # ks) = Some x \<Longrightarrow> truthy v"
  by (cases v) simp_all

lemma list_at_dot: "list_at v [k] = Some xs \<Longrightarrow> k \<noteq> ''length'' \<Longrightarrow> dot v k = JArr xs \<and> truthy v"
  unfolding list_at_def
  by (auto simp: dot_descend split: option.splits jsval.splits dest: descend_truthy)

lemma list_at_None1: "list_at v [k] = None \<Longrightarrow> k \<noteq> ''length'' \<Longrightarrow> \<not> isArray (dot v k)"
  unfolding list_at_def by (auto simp: dot_descend split: option.splits jsval.splits)

lemma list_at_None2:
  "list_at v [k, k'] = None \<Longrightarrow> k \<noteq> ''length'' \<Longrightarrow> k' \<noteq> ''length'' \<Longrightarrow>
   \<not> isArray (dot (dot v k) k')"
  unfolding list_at_def descend_step [of v k "[k']"]
  by (auto simp: dot_descend split: option.splits jsval.splits)

lemma list_at2:
  "list_at v [k, k'] = Some xs \<Longrightarrow> k \<noteq> ''length'' \<Longrightarrow> k' \<noteq> ''length'' \<Longrightarrow>
   truthy v \<and> truthy (dot v k) \<and> dot (dot v k) k' = JArr xs"
  unfolding list_at_def descend_step [of v k "[k']"]
  by (auto simp: dot_descend split: option.splits jsval.splits dest: descend_truthy)

lemma toISOString_TimeMs: "\<exists>s. toISOString (TimeMs t) = Inr s"
  by (simp add: toISOString_def)

lemma historical_record_ok:
  assumes "wf_point e"
  shows "\<exists>s v. historical_record coerce e =
           Inr (JObj [(''timestamp'', JStr s), (''total_volume'', v), (''type'', JStr ''historical_total'')])"
proof -
  from assms obtain q rest where e: "e = JArr (JNum q # rest)"
    and q: "is_whole q" "\<bar>\<lfloor>q\<rfloor>\<bar> \<le> 8640000000000"
    by (auto simp: wf_point_def split: jsval.splits list.splits)
  obtain s where "toISOString (TimeMs (\<lfloor>q\<rfloor> * 1000)) = Inr s"
    using toISOString_TimeMs by blast
  then show ?thesis
    using q by (simp add: e historical_record_def destructure2_def nth_or_undef_def dateFromSeconds_def)
qed

lemma mapM_all:
  "(\<And>x. x \<in> set xs \<Longrightarrow> \<exists>y. f x = Inr y \<and> P y) \<Longrightarrow> \<exists>ys. mapM f xs = Inr ys \<and> length ys = length xs \<and> (\<forall>y\<in>set ys. P y)"
proof (induction xs)
  case Nil
  then show ?case by simp
next
  case (Cons x xs)
  then obtain y where y: "f x = Inr y" "P y" by auto
  from Cons obtain ys where "mapM f xs = Inr ys" "length ys = length xs" "\<forall>y\<in>set ys. P y" by auto
  with y show ?case by simp
qed

lemma historical_section_ok:
  assumes "wf_chart (dot d ''totalDataChart'')" "truthy d"
  shows "\<exists>hist. historical_section coerce d = Inr hist \<and>
           (\<forall>r\<in>set hist. has_type ''historical_total'' r \<and> (\<exists>s. dot r ''timestamp'' = JStr s))"
proof (cases "dot d ''totalDataChart''")
  case (JArr es)
  with assms have "\<And>e. e \<in> set es \<Longrightarrow> wf_point e" by (simp add: wf_chart_def list_all_iff)
  then have "\<And>e. e \<in> set es \<Longrightarrow> \<exists>r. historical_record coerce e = Inr r \<and>
      (has_type ''historical_total'' r \<and> (\<exists>s. dot r ''timestamp'' = JStr s))"
    using historical_record_ok [of _ coerce] by (fastforce simp: has_type_def)
  then have "\<exists>hist. mapM (historical_record coerce) es = Inr hist \<and> length hist = length es \<and>
      (\<forall>r\<in>set hist. has_type ''historical_total'' r \<and> (\<exists>s. dot r ''timestamp'' = JStr s))"
    by (rule mapM_all)
  then show ?thesis
    using assms JArr by (auto simp: historical_section_def truthy_not_nullish)
qed (use assms in \<open>auto simp: historical_section_def truthy_not_nullish wf_chart_def\<close>)

lemma first_protocol_ok:
  assumes "truthy d" "list_or_falsy (dot d ''protocols'')"
  shows "\<exists>p0. first_protocol d = Inr p0 \<and> (truthy p0 \<longleftrightarrow> truthy (first_entry d)) \<and>
           (truthy p0 \<longrightarrow> p0 = first_entry d)"
proof (cases "dot d ''protocols''")
  case (JArr xs)
  then show ?thesis using assms
    by (cases xs) (simp_all add: first_protocol_def first_entry_def and_then_def truthy_not_nullish)
qed (use assms in \<open>auto simp: first_protocol_def first_entry_def and_then_def truthy_not_nullish list_or_falsy_def\<close>)

lemma entries_ok: "\<not> nullish v \<Longrightarrow> entries v = Inr (entries_of v)"
  by (cases v) (simp_all add: entries_of_def)

lemma dex_record_ok:
  "\<not> nullish p0 \<Longrightarrow> dex_record t p0 chain (dexName, volume) =
     Inr (JObj [(''timestamp'', t), (''type'', JStr ''dex_specific''),
              (''dex_name'', JStr dexName), (''chain'', JStr chain), (''volume_24h'', volume),
              (''volume_24h_change'', dot p0 ''change_1d''),
              (''volume_7d_change'', dot p0 ''change_7dover7d''),
              (''volume_30d_change'', dot p0 ''change_30dover30d'')])"
  by (simp add: dex_record_def pick_ok selected_def dex_change_fields_def)

lemma chain_records_ok:
  assumes "\<not> nullish p0" "\<not> nullish dexes"
  shows "chain_records t p0 (chain, dexes) = Inr (dex_records t p0 [(chain, dexes)])"
proof -
  have "mapM (dex_record t p0 chain) (entries_of dexes) =
        Inr (map (\<lambda>(dexName, volume).
        JObj [(''timestamp'', t), (''type'', JStr ''dex_specific''),
              (''dex_name'', JStr dexName), (''chain'', JStr chain), (''volume_24h'', volume),
              (''volume_24h_change'', dot p0 ''change_1d''),
              (''volume_7d_change'', dot p0 ''change_7dover7d''),
              (''volume_30d_change'', dot p0 ''change_30dover30d'')]) (entries_of dexes))"
    by (rule mapM_total) (auto simp: dex_record_ok [OF assms(1)])
  then show ?thesis using assms by (simp add: chain_records_def entries_ok dex_records_def)
qed

lemma dex_records_Cons:
  "dex_records t p0 (c # cs) = dex_records t p0 [c] @ dex_records t p0 cs"
  by (simp add: dex_records_def)

lemma chains_ok:
  assumes "\<not> nullish p0" "list_all (\<lambda>cd. \<not> nullish (snd cd)) ces"
  shows "bind_res (mapM (chain_records t p0) ces) (\<lambda>rss. Inr (concat rss)) = Inr (dex_records t p0 ces)"
  using assms(2)
proof (induction ces)
  case Nil
  then show ?case by (simp add: dex_records_def)
next
  case (Cons c ces)
  obtain chain dexes where c: "c = (chain, dexes)" by (cases c)
  with Cons.prems have n: "\<not> nullish dexes" by simp
  from Cons have "bind_res (mapM (chain_records t p0) ces) (\<lambda>rss. Inr (concat rss)) = Inr (dex_records t p0 ces)"
    by simp
  then obtain rss where r: "mapM (chain_records t p0) ces = Inr rss" "concat rss = dex_records t p0 ces"
    by (cases "mapM (chain_records t p0) ces") auto
  show ?case
    unfolding dex_records_Cons [of t p0 c ces]
    by (simp add: c chain_records_ok [OF assms(1) n] r)
qed

lemma dex_section_ok:
  assumes "truthy d" "list_or_falsy (dot d ''protocols'')"
    "wf_breakdown (dot (first_entry d) ''breakdown24h'')"
  shows "dex_section t d =
           Inr (dex_records t (first_entry d) (entries_of (dot (first_entry d) ''breakdown24h'')))"
proof -
  obtain p0 where p0: "first_protocol d = Inr p0" "truthy p0 \<longleftrightarrow> truthy (first_entry d)"
     "truthy p0 \<longrightarrow> p0 = first_entry d"
    using first_protocol_ok [OF assms(1,2)] by blast
  show ?thesis
  proof (cases "truthy (first_entry d)")
    case False
    then have "dot (first_entry d) ''breakdown24h'' = JUndef"
      by (cases "first_entry d") simp_all
    moreover have "\<not> truthy p0" using False p0 by simp
    ultimately show ?thesis using p0(1)
      by (simp add: dex_section_def and_then_def entries_of_def dex_records_def)
  next
    case True
    then have fp: "first_protocol d = Inr (first_entry d)" using p0 by simp
    note nn = truthy_not_nullish [OF True]
    show ?thesis
    proof (cases "truthy (dot (first_entry d) ''breakdown24h'')")
      case False
      then have "entries_of (dot (first_entry d) ''breakdown24h'') = []"
        by (cases "dot (first_entry d) ''breakdown24h''") (simp_all add: entries_of_def)
      then show ?thesis using True False
        by (simp add: dex_section_def fp and_then_def nn dex_records_def)
    next
      case b: True
      then have "list_all (\<lambda>cd. \<not> nullish (snd cd)) (entries_of (dot (first_entry d) ''breakdown24h''))"
        using assms(3) by (simp add: wf_breakdown_def)
      from chains_ok [OF nn this]
      show ?thesis using True b
        by (simp add: dex_section_def fp and_then_def nn entries_ok truthy_not_nullish)
    qed
  qed
qed

lemma summary_section_ok:
  assumes "truthy d" "list_or_falsy (dot d ''protocols'')"
  shows "summary_section t d =
           Inr (if truthy (first_entry d)
                then [JObj ([(''timestamp'', t), (''type'', JStr ''volume_summary'')]
                            @ selected summary_fields (first_entry d))]
                else [])"
proof -
  obtain p0 where p0: "first_protocol d = Inr p0" "truthy p0 \<longleftrightarrow> truthy (first_entry d)"
     "truthy p0 \<longrightarrow> p0 = first_entry d"
    using first_protocol_ok [OF assms(1,2)] by blast
  then show ?thesis
    by (auto simp: summary_section_def pick_ok truthy_not_nullish)
qed

lemma dex_records_type: "r \<in> set (dex_records t p0 ces) \<Longrightarrow> has_type ''dex_specific'' r \<and> dot r ''timestamp'' = t"
  by (auto simp: dex_records_def has_type_def)

lemma wf_dex_doc_output:
  assumes "wf_dex_doc doc" "declared_time doc = Some t" "truthy (dot doc ''data'')"
  shows "\<exists>hist. formatDexVolumeData coerce doc =
            Inr (hist
                 @ dex_records t (first_entry (dot doc ''data''))
                     (entries_of (dot (first_entry (dot doc ''data'')) ''breakdown24h''))
                 @ (if truthy (first_entry (dot doc ''data''))
                    then [JObj ([(''timestamp'', t), (''type'', JStr ''volume_summary'')]
                            @ selected summary_fields (first_entry (dot doc ''data'')))]
                    else []))
          \<and> (\<forall>r\<in>set hist. has_type ''historical_total'' r \<and> (\<exists>s. dot r ''timestamp'' = JStr s))"
proof -
  let ?d = "dot doc ''data''"
  from assms(1) have w: "wf_chart (dot ?d ''totalDataChart'')" "list_or_falsy (dot ?d ''protocols'')"
    "wf_breakdown (dot (first_entry ?d) ''breakdown24h'')"
    by (simp_all add: wf_dex_doc_def Let_def)
  have doc: "truthy doc" using assms(2) unfolding declared_time_def by (rule descend_truthy)
  obtain hist where h: "historical_section coerce ?d = Inr hist"
    "\<forall>r\<in>set hist. has_type ''historical_total'' r \<and> (\<exists>s. dot r ''timestamp'' = JStr s)"
    using historical_section_ok [OF w(1) assms(3)] by blast
  show ?thesis
    using doc assms(3) h
    by (simp add: formatDexVolumeData_def truthy_not_nullish declared_time_ok [OF assms(2)]
          dex_section_ok [OF assms(3) w(2,3)] summary_section_ok [OF assms(3) w(2)])
qed

lemma iso_example: "isoString 1460419200000 = ''2016-04-12T00:00:00.000Z''"
  by code_simp

lemma isoString_examples:
  "isoString (- 1) = ''1969-12-31T23:59:59.999Z''"
  "isoString 951782400000 = ''2000-02-29T00:00:00.000Z''"
  by code_simp+

lemma example_point:
  "historical_record coerce (JArr [JNum 1460419200, JNum 1000000]) =
     Inr (JObj [(''timestamp'', JStr ''2016-04-12T00:00:00.000Z''),
                (''total_volume'', JNum 1000000), (''type'', JStr ''historical_total'')])"
  by (simp add: historical_record_def destructure2_def nth_or_undef_def dateFromSeconds_def
        is_whole_def toISOString_def iso_example)

lemma descend2_dot:
  assumes "descend doc [k, k'] = Some x" "k \<noteq> ''length''" "k' \<noteq> ''length''"
  shows "truthy doc \<and> truthy (dot doc k) \<and> dot (dot doc k) k' = x"
  using assms unfolding descend_step [of doc k "[k']"]
  by (auto simp: dot_descend split: option.splits dest: descend_truthy)

lemma descend1_dot:
  assumes "descend v [k] = Some x" "k \<noteq> ''length''"
  shows "truthy v \<and> dot v k = x"
  using assms by (auto simp: dot_descend dest: descend_truthy)


lemma wf_list_docD:
  assumes "wf_list_doc path doc"
  obtains t xs where "declared_time doc = Some t" "list_at doc path = Some xs"
    "list_all (\<lambda>x. \<not> nullish x) xs"
  using assms by (auto simp: wf_list_doc_def split: option.splits)




lemma predictions_ok: "\<not> nullish pool \<Longrightarrow> predictions pool = Inr (predicted pool)"
  unfolding predictions_def predicted_def
  by (subst mapM_total [where g = "\<lambda>k. (k, opt_get (dot pool ''predictions'') k)"]) simp_all

lemma pool_record_ok:
  assumes "declared_time doc = Some t" "\<not> nullish pool"
  shows "pool_record doc pool =
           Inr (JObj ((''timestamp'', t) # selected pool_fields pool
                      @ [(''predictions'', predicted pool)]))"
  using assms by (simp add: pool_record_def declared_time_ok pick_ok predictions_ok)

lemma yield_output:
  assumes "declared_time doc = Some t" "list_at doc [''data'', ''data''] = Some pools"
    "list_all (\<lambda>x. \<not> nullish x) pools"
  shows "formatYieldPoolData doc =
           Inr (map (\<lambda>pool. JObj ((''timestamp'', t) # selected pool_fields pool
                      @ [(''predictions'', predicted pool)])) pools)"
proof -
  have "truthy doc" "truthy (dot doc ''data'')" "dot (dot doc ''data'') ''data'' = JArr pools"
    using list_at2 [OF assms(2)] by simp_all
  moreover have "mapM (pool_record doc) pools =
      Inr (map (\<lambda>pool. JObj ((''timestamp'', t) # selected pool_fields pool
                      @ [(''predictions'', predicted pool)])) pools)"
    using assms(3) by (intro mapM_total pool_record_ok [OF assms(1)]) (simp add: list_all_iff)
  ultimately show ?thesis
    by (simp add: formatYieldPoolData_def truthy_not_nullish)
qed

lemma predicted_field:
  assumes "k \<in> set prediction_fields"
  shows "dot (predicted pool) k =
           (case descend pool [''predictions'', k] of Some v \<Rightarrow> v | None \<Rightarrow> JUndef)"
proof -
  have k: "k \<noteq> ''length''" using assms by (auto simp: prediction_fields_def)
  have "dot (predicted pool) k = opt_get (dot pool ''predictions'') k"
    using assms by (auto simp: predicted_def prediction_fields_def)
  also have "\<dots> = (case descend pool [''predictions'', k] of Some v \<Rightarrow> v | None \<Rightarrow> JUndef)"
    unfolding descend_step [of pool "''predictions''" "[k]"]
    using k by (cases "dot pool ''predictions''")
      (auto simp: opt_get_def dot_descend split: option.splits)
  finally show ?thesis .
qed

lemma predicted_absent:
  assumes "descend pool [''predictions''] = None"
  shows "predicted pool = JObj [(''predictedClass'', JUndef), (''predictedProbability'', JUndef),
                                (''binnedConfidence'', JUndef)]"
proof -
  have "dot pool ''predictions'' = JUndef" using assms by (simp add: dot_descend)
  then show ?thesis by (simp add: predicted_def prediction_fields_def opt_get_def)
qed

lemma falsy_dot: "\<not> truthy d \<Longrightarrow> k \<noteq> ''length'' \<Longrightarrow> dot d k = JUndef"
  by (cases d) simp_all

lemma summary_type:
  "has_type ty (JObj ([(''timestamp'', t), (''type'', JStr ty')] @ fs)) \<longleftrightarrow> ty = ty'"
  by (auto simp: has_type_def)

lemma example_breakdown_wf: "wf_dex_doc example_breakdown_doc"
  by (simp add: wf_dex_doc_def example_breakdown_doc_def declared_time_def wf_chart_def
        list_or_falsy_def first_entry_def wf_breakdown_def entries_of_def)

lemma example_breakdown_time:
  "declared_time example_breakdown_doc = Some (JStr ''2025-04-15T22:09:43.495076'')"
  by (simp add: example_breakdown_doc_def declared_time_def)

lemma example_pool_wf: "wf_list_doc [''data'', ''data''] example_pool_doc"
  by (simp add: wf_list_doc_def list_at_def declared_time_def example_pool_doc_def)

lemma fetch_category_value:
  "fst (fetch_category http stringify announce url filename w) = payload (http url)"
  by (simp add: fetch_category_def fetchData_def payload_def split: sum.splits)

lemma fetchAllData_summary:
  "fst (fetchAllData http stringify w) =
     \<lparr>protocolCount = or_zero (opt_get (payload (http (BASE_URL @ ''/protocols''))) ''length''),
      dexCount = or_zero (opt_get (opt_get (payload (http (BASE_URL @ ''/overview/dexs''))) ''protocols'') ''length''),
      poolCount = or_zero (opt_get (payload (http (YIELDS_URL @ ''/pools''))) ''length''),
      stablecoinCount = or_zero (opt_get (payload (http (STABLECOINS_URL @ ''/stablecoins''))) ''length''),
      feeProtocolCount = or_zero (opt_get (opt_get (payload (http (BASE_URL @ ''/overview/fees''))) ''protocols'') ''length'')\<rparr>"
proof -
  have v: "fst p = x \<Longrightarrow> (case p of (a, b) \<Rightarrow> f a b) = f x (snd p)" for p :: "jsval \<times> world" and x f
    by (cases p) simp
  show ?thesis
    unfolding fetchAllData_def Let_def fetchProtocolTVL_def fetchDEXVolumes_def fetchYieldPools_def
      fetchStablecoinData_def fetchFeeData_def
    by (simp add: v [OF fetch_category_value])
qed

lemma count_list: "or_zero (opt_get (payload (Inr (JArr xs))) ''length'') = JNum (of_nat (length xs))"
  by (simp add: payload_def opt_get_def or_zero_def)

lemma count_failed: "or_zero (opt_get (payload (Inl m)) ''length'') = JNum 0"
  by (simp add: payload_def opt_get_def or_zero_def)

lemma count_object:
  "map_of kvs ''length'' = None \<Longrightarrow> or_zero (opt_get (payload (Inr (JObj kvs))) ''length'') = JNum 0"
  by (simp add: payload_def opt_get_def or_zero_def)

lemma count_nested_list:
  assumes "list_at p [''protocols''] = Some xs"
  shows "or_zero (opt_get (opt_get (payload (Inr p)) ''protocols'') ''length'') = JNum (of_nat (length xs))"
proof -
  have "dot p ''protocols'' = JArr xs" "truthy p" using list_at_dot [OF assms] by simp_all
  then show ?thesis by (simp add: payload_def opt_get_def or_zero_def truthy_not_nullish)
qed

lemma count_nested_failed:
  "or_zero (opt_get (opt_get (payload (Inl m)) ''protocols'') ''length'') = JNum 0"
  by (simp add: payload_def opt_get_def or_zero_def)

lemma count_nested_missing:
  assumes "descend p [''protocols''] = None"
  shows "or_zero (opt_get (opt_get (payload (Inr p)) ''protocols'') ''length'') = JNum 0"
proof -
  have "dot p ''protocols'' = JUndef" using assms by (simp add: dot_descend)
  then show ?thesis by (simp add: payload_def opt_get_def or_zero_def)
qed

lemma readJsonFile_files [simp]: "files (snd (readJsonFile parse p w)) = files w"
  by (simp add: readJsonFile_def say_def split: option.splits)

lemma readJsonFile_indep:
  "files w1 p = files w p \<Longrightarrow> fst (readJsonFile parse p w1) = fst (readJsonFile parse p w)"
  by (simp add: readJsonFile_def split: option.splits)

lemma written_indep:
  "files w1 (inputFile c) = files w (inputFile c) \<Longrightarrow>
   written parse stringify c w1 = written parse stringify c w"
  by (simp add: written_def readJsonFile_indep [of w1 _ w])

lemma process_entry_files:
  "files (snd (process_entry parse stringify c w)) =
     (case written parse stringify c w of
        Some s \<Rightarrow> (files w)(outputFile c \<mapsto> s)
      | None \<Rightarrow> files w)"
  by (cases "readJsonFile parse (inputFile c) (say (Info (''Processing '' @ inputFile c @ ''...'')) w)")
     (auto simp: process_entry_def written_def Let_def say_def writeFileSync_def
        readJsonFile_def split: sum.splits option.splits)

lemma process_entry_console:
  "\<exists>ls. console (snd (process_entry parse stringify c w)) = console w @ ls"
  by (auto simp: process_entry_def Let_def say_def writeFileSync_def
        readJsonFile_def split: sum.splits option.splits prod.splits)

lemma process_entry_warns:
  assumes "fst (process_entry parse stringify c w) = None"
    and "data = fst (readJsonFile parse (inputFile c) w)"
  shows "(\<not> truthy data \<longrightarrow>
            Info (''Error: Could not read '' @ inputFile c) \<in> set (console (snd (process_entry parse stringify c w))))
       \<and> (truthy data \<and> processor c data = Inr [] \<longrightarrow>
            Info (''Warning: No data found in '' @ inputFile c) \<in> set (console (snd (process_entry parse stringify c w))))"
  using assms
  by (auto simp: process_entry_def Let_def say_def writeFileSync_def
        readJsonFile_def split: sum.splits option.splits prod.splits)

lemma process_entries_console:
  "set (console w) \<subseteq> set (console (snd (process_entries parse stringify cs w)))"
proof (induction cs arbitrary: w)
  case Nil
  then show ?case by simp
next
  case (Cons c cs)
  obtain r w1 where s: "process_entry parse stringify c w = (r, w1)" by (cases "process_entry parse stringify c w")
  obtain ls where "console w1 = console w @ ls"
    using process_entry_console [of parse stringify c w] s by auto
  then have "set (console w) \<subseteq> set (console w1)" by auto
  then show ?case using Cons [of w1] s by (cases r) auto
qed

lemma process_entries_files:
  assumes "distinct (map outputFile cs)"
    and "set (map inputFile cs) \<inter> set (map outputFile cs) = {}"
  shows "files (snd (process_entries parse stringify cs w)) p = files w p \<or>
         (\<exists>c\<in>set cs. p = outputFile c \<and>
            (\<exists>s. written parse stringify c w = Some s \<and>
                 files (snd (process_entries parse stringify cs w)) p = Some s))"
  using assms
proof (induction cs arbitrary: w)
  case Nil
  then show ?case by simp
next
  case (Cons c cs)
  obtain r w1 where s: "process_entry parse stringify c w = (r, w1)" by (cases "process_entry parse stringify c w")
  have f1: "files w1 = (case written parse stringify c w of
        Some s \<Rightarrow> (files w)(outputFile c \<mapsto> s) | None \<Rightarrow> files w)"
    using process_entry_files [of parse stringify c w] s by simp
  have same: "written parse stringify c' w1 = written parse stringify c' w" if "c' \<in> set cs" for c'
  proof (rule written_indep)
    have "inputFile c' \<in> set (map inputFile (c # cs))" "outputFile c \<in> set (map outputFile (c # cs))"
      using that by simp_all
    moreover have "\<forall>x. x \<in> set (map inputFile (c # cs)) \<longrightarrow> x \<notin> set (map outputFile (c # cs))"
      using Cons.prems(2) by (simp only: disjoint_iff)
    ultimately have "inputFile c' \<noteq> outputFile c" by metis
    then show "files w1 (inputFile c') = files w (inputFile c')"
      unfolding f1 by (simp split: option.splits)
  qed
  have step: "files w1 p = files w p \<or>
      (p = outputFile c \<and> (\<exists>s. written parse stringify c w = Some s \<and> files w1 p = Some s))"
    unfolding f1 by (auto split: option.splits)
  show ?case
  proof (cases r)
    case (Some e)
    then have e: "snd (process_entries parse stringify (c # cs) w) = w1" using s by simp
    show ?thesis unfolding e using step by auto
  next
    case None
    then have e: "snd (process_entries parse stringify (c # cs) w) = snd (process_entries parse stringify cs w1)"
      using s by simp
    have d: "distinct (map outputFile cs)" "set (map inputFile cs) \<inter> set (map outputFile cs) = {}"
      using Cons.prems by auto
    from Cons.IH [OF d, of w1]
    consider (a) "files (snd (process_entries parse stringify cs w1)) p = files w1 p"
      | (b) c' s' where "c' \<in> set cs" "p = outputFile c'" "written parse stringify c' w1 = Some s'"
          "files (snd (process_entries parse stringify cs w1)) p = Some s'"
      by blast
    then show ?thesis
    proof cases
      case a
      then show ?thesis unfolding e using step by auto
    next
      case b
      then show ?thesis unfolding e using same [OF b(1)] by auto
    qed
  qed
qed

lemma process_entries_warns:
  assumes "fst (process_entries parse stringify cs w) = None"
    and "set (map inputFile cs) \<inter> set (map outputFile cs) = {}"
    and "c \<in> set cs" and "data = fst (readJsonFile parse (inputFile c) w)"
  shows "(\<not> truthy data \<longrightarrow>
            Info (''Error: Could not read '' @ inputFile c) \<in> set (console (snd (process_entries parse stringify cs w))))
       \<and> (truthy data \<and> processor c data = Inr [] \<longrightarrow>
            Info (''Warning: No data found in '' @ inputFile c) \<in> set (console (snd (process_entries parse stringify cs w))))"
  using assms
proof (induction cs arbitrary: w)
  case Nil
  then show ?case by simp
next
  case (Cons c0 cs)
  obtain r w1 where s: "process_entry parse stringify c0 w = (r, w1)" by (cases "process_entry parse stringify c0 w")
  have r: "r = None" using Cons.prems(1) s by (cases r) auto
  have e: "process_entries parse stringify (c0 # cs) w = process_entries parse stringify cs w1"
    using s r by simp
  show ?case
  proof (cases "c = c0")
    case True
    have "fst (process_entry parse stringify c w) = None" "snd (process_entry parse stringify c w) = w1"
      using s r True by simp_all
    from process_entry_warns [OF this(1) Cons.prems(4)] this(2)
    show ?thesis
      unfolding e using process_entries_console [of w1 parse stringify cs] by auto
  next
    case False
    then have c: "c \<in> set cs" using Cons.prems(3) by simp
    have f1: "files w1 = (case written parse stringify c0 w of
        Some s \<Rightarrow> (files w)(outputFile c0 \<mapsto> s) | None \<Rightarrow> files w)"
      using process_entry_files [of parse stringify c0 w] s by simp
    have "inputFile c \<in> set (map inputFile (c0 # cs))" "outputFile c0 \<in> set (map outputFile (c0 # cs))"
      using c by simp_all
    moreover have "\<forall>x. x \<in> set (map inputFile (c0 # cs)) \<longrightarrow> x \<notin> set (map outputFile (c0 # cs))"
      using Cons.prems(2) by (simp only: disjoint_iff)
    ultimately have "inputFile c \<noteq> outputFile c0" by metis
    then have "files w1 (inputFile c) = files w (inputFile c)"
      unfolding f1 by (simp split: option.splits)
    then have d: "data = fst (readJsonFile parse (inputFile c) w1)"
      using Cons.prems(4) readJsonFile_indep [of w1 "inputFile c" w parse] by simp
    have "fst (process_entries parse stringify cs w1) = None" using Cons.prems(1) e by simp
    moreover have "set (map inputFile cs) \<inter> set (map outputFile cs) = {}" using Cons.prems(2) by auto
    ultimately show ?thesis unfolding e using Cons.IH [of w1] c d by blast
  qed
qed

lemma dataFiles_paths:
  "distinct (map outputFile (dataFiles coerce))"
  "set (map inputFile (dataFiles coerce)) \<inter> set (map outputFile (dataFiles coerce)) = {}"
  by (simp_all add: dataFiles_def)

lemma ensure_dir_files [simp]: "files (ensure_dir p w) = files w"
  by (simp add: ensure_dir_def mkdirSync_def)

lemma processAllData_files:
  "files (snd (processAllData parse stringify coerce w)) =
   files (snd (process_entries parse stringify (dataFiles coerce) (ensure_dir ''./raw_data'' w)))"
  by (simp add: processAllData_def say_def split: prod.splits option.splits)

lemma processAllData_console:
  "set (console (snd (process_entries parse stringify (dataFiles coerce) (ensure_dir ''./raw_data'' w))))
   \<subseteq> set (console (snd (processAllData parse stringify coerce w)))"
  by (auto simp: processAllData_def say_def split: prod.splits option.splits)

lemma processAllData_None:
  "fst (processAllData parse stringify coerce w) = None \<Longrightarrow>
   fst (process_entries parse stringify (dataFiles coerce) (ensure_dir ''./raw_data'' w)) = None"
  by (auto simp: processAllData_def split: prod.splits option.splits)

lemma run_ok: "fst (processAllData example_parse example_stringify no_coerce example_world) = None"
  by (simp add: processAllData_def dataFiles_def process_entry_def readJsonFile_def say_def
        ensure_dir_def existsSync_def mkdirSync_def writeFileSync_def example_world_def
        example_parse_def example_tvl_doc_def formatProtocolTvlData_def formatDexVolumeData_def
        flat_record_def collection_timestamp_def get_def pick_def tvl_fields_def Let_def
        example_stringify_def)

lemma run_tvl:
  "files (snd (processAllData example_parse example_stringify no_coerce example_world))
     ''raw_data/protocols_tvl_raw.json'' = Some ''new''"
  by (simp add: processAllData_def dataFiles_def process_entry_def readJsonFile_def say_def
        ensure_dir_def existsSync_def mkdirSync_def writeFileSync_def example_world_def
        example_parse_def example_tvl_doc_def formatProtocolTvlData_def formatDexVolumeData_def
        flat_record_def collection_timestamp_def get_def pick_def tvl_fields_def Let_def
        example_stringify_def)

section \<open>The claims\<close>

text \<open>
  C1, as amended. Each rule checks its container before it reads anything else: a document
  whose container path does not lead to a list (\<^verbatim>\<open>data\<close> for the protocol TVL rule,
  \<^verbatim>\<open>data.data\<close> for the yield pool rule, \<^verbatim>\<open>data.peggedAssets\<close> for the stablecoin rule,
  \<^verbatim>\<open>data.protocols\<close> for the protocol fee rule), and for the DEX volume rule a document
  whose \<^verbatim>\<open>data\<close> is missing or falsy, gives the empty sequence and no exception. This
  covers the absent document (\<^verbatim>\<open>null\<close>), a document that is not an object, and one
  without its container, whether or not it carries metadata.
\<close>

theorem guards_return_empty:
  "(list_at doc [''data''] = None \<longrightarrow> formatProtocolTvlData doc = Inr [])
   \<and> (list_at doc [''data'', ''data''] = None \<longrightarrow> formatYieldPoolData doc = Inr [])
   \<and> (list_at doc [''data'', ''peggedAssets''] = None \<longrightarrow> formatStablecoinData doc = Inr [])
   \<and> (list_at doc [''data'', ''protocols''] = None \<longrightarrow> formatProtocolFeeData doc = Inr [])
   \<and> ((case descend doc [''data''] of None \<Rightarrow> True | Some d \<Rightarrow> \<not> truthy d)
        \<longrightarrow> formatDexVolumeData coerce doc = Inr [])"
proof (intro conjI impI)
  assume "list_at doc [''data''] = None"
  then have "\<not> isArray (dot doc ''data'')" by (rule list_at_None1) simp
  then show "formatProtocolTvlData doc = Inr []"
    by (simp add: formatProtocolTvlData_def truthy_not_nullish)
next
  assume "list_at doc [''data'', ''data''] = None"
  then have "\<not> isArray (dot (dot doc ''data'') ''data'')" by (rule list_at_None2) simp_all
  then show "formatYieldPoolData doc = Inr []"
    by (simp add: formatYieldPoolData_def truthy_not_nullish)
next
  assume "list_at doc [''data'', ''peggedAssets''] = None"
  then have "\<not> isArray (dot (dot doc ''data'') ''peggedAssets'')" by (rule list_at_None2) simp_all
  then show "formatStablecoinData doc = Inr []"
    by (simp add: formatStablecoinData_def truthy_not_nullish)
next
  assume "list_at doc [''data'', ''protocols''] = None"
  then have "\<not> isArray (dot (dot doc ''data'') ''protocols'')" by (rule list_at_None2) simp_all
  then show "formatProtocolFeeData doc = Inr []"
    by (simp add: formatProtocolFeeData_def truthy_not_nullish)
next
  assume a: "case descend doc [''data''] of None \<Rightarrow> True | Some d \<Rightarrow> \<not> truthy d"
  have "\<not> truthy (dot doc ''data'')"
    using a by (cases doc) (auto split: option.splits)
  then show "formatDexVolumeData coerce doc = Inr []"
    by (simp add: formatDexVolumeData_def truthy_not_nullish)
qed

theorem guards_return_empty_witness:
  "list_at (JObj [(''status'', JStr ''error'')]) [''data''] = None
   \<and> formatProtocolTvlData (JObj [(''status'', JStr ''error'')]) = Inr []
   \<and> list_at (JObj [(''status'', JStr ''error'')]) [''data'', ''data''] = None
   \<and> formatYieldPoolData (JObj [(''status'', JStr ''error'')]) = Inr []
   \<and> list_at (JObj [(''status'', JStr ''error'')]) [''data'', ''peggedAssets''] = None
   \<and> formatStablecoinData (JObj [(''status'', JStr ''error'')]) = Inr []
   \<and> list_at (JObj [(''status'', JStr ''error'')]) [''data'', ''protocols''] = None
   \<and> formatProtocolFeeData (JObj [(''status'', JStr ''error'')]) = Inr []
   \<and> descend (JObj [(''status'', JStr ''error'')]) [''data''] = None
   \<and> formatDexVolumeData no_coerce (JObj [(''status'', JStr ''error'')]) = Inr []"
  using guards_return_empty [of "JObj [(''status'', JStr ''error'')]" no_coerce]
  by (simp add: list_at_def)

text \<open>
  C1 as stated fails. A document that has its container and lacks the metadata is
  malformed, and the rules raise a TypeError on it when they read the collection time:
  the list rules for the first element of the list, the DEX volume rule at once. The DEX
  volume rule also raises a TypeError on a document whose \<^verbatim>\<open>totalDataChart\<close> is truthy
  and not a list (here an object), since it calls \<^verbatim>\<open>forEach\<close> on it unchecked.
\<close>

theorem guards_counterexample:
  "formatProtocolTvlData (JObj [(''data'', JArr [JObj [(''name'', JStr ''Aave'')]])])
     = Inl TypeError
   \<and> formatDexVolumeData no_coerce (JObj [(''data'', JObj [(''protocols'', JArr [])])])
     = Inl TypeError
   \<and> formatDexVolumeData no_coerce
        (JObj [(''data'', JObj [(''totalDataChart'', JObj [])]),
               (''metadata'', JObj [(''collection_info'',
                  JObj [(''timestamp'', JStr ''2025-04-15T22:09:43.495076'')])])])
     = Inl TypeError"
  by (simp add: formatProtocolTvlData_def formatDexVolumeData_def get_def flat_record_def
        collection_timestamp_def historical_section_def)




text \<open>
  C3. On a well-formed document whose first protocol entry \<open>p0\<close> has the breakdown \<open>ces\<close>,
  the rule returns, and the \<^verbatim>\<open>dex_specific\<close> records of the output are, in order, one for
  each DEX of each chain of \<open>ces\<close>, with the volume of that pair and the change figures
  \<^verbatim>\<open>change_1d\<close>, \<^verbatim>\<open>change_7dover7d\<close> and \<^verbatim>\<open>change_30dover30d\<close> of \<open>p0\<close>. The other
  protocol entries (\<open>rest\<close>) do not occur in them. For the breakdown
  \<^verbatim>\<open>{"ethereum": {"uniswap": 500, "curve": 300}}\<close> these are two records, with the
  volumes 500 and 300.
\<close>

theorem dex_specific_flattening:
  assumes "wf_dex_doc doc" and "declared_time doc = Some t"
    and "list_at doc [''data'', ''protocols''] = Some (p0 # rest)"
    and "descend p0 [''breakdown24h''] = Some (JObj ces)"
  shows "\<exists>out. formatDexVolumeData coerce doc = Inr out \<and>
           filter (has_type ''dex_specific'') out =
             concat (map (\<lambda>(chain, dexes). map (\<lambda>(dexName, volume).
               JObj [(''timestamp'', t), (''type'', JStr ''dex_specific''),
                     (''dex_name'', JStr dexName), (''chain'', JStr chain),
                     (''volume_24h'', volume),
                     (''volume_24h_change'', dot p0 ''change_1d''),
                     (''volume_7d_change'', dot p0 ''change_7dover7d''),
                     (''volume_30d_change'', dot p0 ''change_30dover30d'')])
               (entries_of dexes)) ces)"
proof -
  let ?d = "dot doc ''data''"
  have d: "truthy ?d" "dot ?d ''protocols'' = JArr (p0 # rest)"
    using list_at2 [OF assms(3)] by simp_all
  then have p0: "first_entry ?d = p0" by (simp add: first_entry_def)
  have b: "entries_of (dot p0 ''breakdown24h'') = ces"
    using descend1_dot [OF assms(4)] by (simp add: entries_of_def)
  from wf_dex_doc_output [OF assms(1,2) d(1), of coerce] obtain hist where
    out: "formatDexVolumeData coerce doc =
            Inr (hist @ dex_records t p0 ces
                 @ (if truthy p0
                    then [JObj ([(''timestamp'', t), (''type'', JStr ''volume_summary'')]
                            @ selected summary_fields p0)]
                    else []))"
    and hist: "\<forall>r\<in>set hist. has_type ''historical_total'' r \<and> (\<exists>s. dot r ''timestamp'' = JStr s)"
    unfolding p0 b by blast
  have 1: "filter (has_type ''dex_specific'') hist = []"
    using hist by (auto simp: filter_empty_conv has_type_def)
  have 2: "filter (has_type ''dex_specific'') (dex_records t p0 ces) = dex_records t p0 ces"
    by (auto simp: filter_id_conv dest: dex_records_type)
  have 3: "\<not> has_type ''dex_specific'' (JObj ([(''timestamp'', t), (''type'', JStr ''volume_summary'')]
                            @ selected summary_fields p0))"
    unfolding summary_type by simp
  have "filter (has_type ''dex_specific'')
          (hist @ dex_records t p0 ces
                 @ (if truthy p0
                    then [JObj ([(''timestamp'', t), (''type'', JStr ''volume_summary'')]
                            @ selected summary_fields p0)]
                    else [])) = dex_records t p0 ces"
    using 1 2 3 by simp
  then show ?thesis
    unfolding out dex_records_def by simp
qed

theorem dex_specific_flattening_witness:
  "wf_dex_doc example_breakdown_doc \<and>
   (\<exists>out. formatDexVolumeData no_coerce example_breakdown_doc = Inr out \<and>
      filter (has_type ''dex_specific'') out =
        [JObj [(''timestamp'', JStr ''2025-04-15T22:09:43.495076''),
               (''type'', JStr ''dex_specific''), (''dex_name'', JStr ''uniswap''),
               (''chain'', JStr ''ethereum''), (''volume_24h'', JNum 500),
               (''volume_24h_change'', JNum 2), (''volume_7d_change'', JUndef),
               (''volume_30d_change'', JUndef)],
         JObj [(''timestamp'', JStr ''2025-04-15T22:09:43.495076''),
               (''type'', JStr ''dex_specific''), (''dex_name'', JStr ''curve''),
               (''chain'', JStr ''ethereum''), (''volume_24h'', JNum 300),
               (''volume_24h_change'', JNum 2), (''volume_7d_change'', JUndef),
               (''volume_30d_change'', JUndef)]])"
proof -
  let ?p0 = "JObj [(''breakdown24h'', JObj [(''ethereum'',
                       JObj [(''uniswap'', JNum 500), (''curve'', JNum 300)])]),
                     (''change_1d'', JNum 2), (''total24h'', JNum 800)]"
  have l: "list_at example_breakdown_doc [''data'', ''protocols''] =
             Some (?p0 # [JObj [(''breakdown24h'', JObj [(''bsc'', JObj [(''pancakeswap'', JNum 70)])])]])"
    by (simp add: example_breakdown_doc_def list_at_def)
  have b: "descend ?p0 [''breakdown24h''] =
             Some (JObj [(''ethereum'', JObj [(''uniswap'', JNum 500), (''curve'', JNum 300)])])"
    by simp
  from dex_specific_flattening [OF example_breakdown_wf example_breakdown_time l b, of no_coerce]
  show ?thesis
    using example_breakdown_wf by (simp add: entries_of_def)
qed

text \<open>
  C4. A well-formed document whose \<^verbatim>\<open>totalDataChart\<close> is \<^verbatim>\<open>[[1460419200, 1000000]]\<close>: the
  rule returns, and the output has exactly one \<^verbatim>\<open>historical_total\<close> record, with the
  timestamp \<^verbatim>\<open>2016-04-12T00:00:00.000Z\<close> and the total volume 1000000.
\<close>

theorem historical_total_example:
  assumes "wf_dex_doc doc"
    and "descend doc [''data'', ''totalDataChart''] = Some (JArr [JArr [JNum 1460419200, JNum 1000000]])"
  shows "\<exists>out. formatDexVolumeData coerce doc = Inr out \<and>
           filter (has_type ''historical_total'') out =
             [JObj [(''timestamp'', JStr ''2016-04-12T00:00:00.000Z''),
                    (''total_volume'', JNum 1000000), (''type'', JStr ''historical_total'')]]"
proof -
  let ?d = "dot doc ''data''"
  let ?p = "first_entry ?d"
  from assms(1) obtain t where t: "declared_time doc = Some t" by (auto simp: wf_dex_doc_def)
  from assms(1) have w: "list_or_falsy (dot ?d ''protocols'')" "wf_breakdown (dot ?p ''breakdown24h'')"
    by (simp_all add: wf_dex_doc_def Let_def)
  have d: "truthy doc" "truthy ?d" "dot ?d ''totalDataChart'' = JArr [JArr [JNum 1460419200, JNum 1000000]]"
    using descend2_dot [OF assms(2)] by simp_all
  have h: "historical_section coerce ?d =
     Inr [JObj [(''timestamp'', JStr ''2016-04-12T00:00:00.000Z''),
                    (''total_volume'', JNum 1000000), (''type'', JStr ''historical_total'')]]"
    using d by (simp add: historical_section_def truthy_not_nullish example_point)
  have out: "formatDexVolumeData coerce doc =
     Inr ([JObj [(''timestamp'', JStr ''2016-04-12T00:00:00.000Z''),
                    (''total_volume'', JNum 1000000), (''type'', JStr ''historical_total'')]]
          @ dex_records t ?p (entries_of (dot ?p ''breakdown24h''))
          @ (if truthy ?p
             then [JObj ([(''timestamp'', t), (''type'', JStr ''volume_summary'')]
                            @ selected summary_fields ?p)]
             else []))"
    using d(1,2)
    by (simp add: formatDexVolumeData_def truthy_not_nullish declared_time_ok [OF t] h
          dex_section_ok [OF d(2) w] summary_section_ok [OF d(2) w(1)])
  have "filter (has_type ''historical_total'') (dex_records t ?p (entries_of (dot ?p ''breakdown24h''))) = []"
    by (auto simp: filter_empty_conv has_type_def dest!: dex_records_type)
  then show ?thesis
    unfolding out by (simp add: has_type_def)
qed

theorem historical_total_example_witness:
  "wf_dex_doc example_dex_doc \<and>
   formatDexVolumeData no_coerce example_dex_doc =
     Inr [JObj [(''timestamp'', JStr ''2016-04-12T00:00:00.000Z''),
                (''total_volume'', JNum 1000000), (''type'', JStr ''historical_total'')]]"
proof -
  have w: "wf_dex_doc example_dex_doc"
    by (simp add: wf_dex_doc_def example_dex_doc_def declared_time_def wf_chart_def wf_point_def
          is_whole_def list_or_falsy_def first_entry_def wf_breakdown_def)
  have p: "descend example_dex_doc [''data'', ''totalDataChart''] =
             Some (JArr [JArr [JNum 1460419200, JNum 1000000]])"
    by (simp add: example_dex_doc_def)
  have e: "formatDexVolumeData no_coerce example_dex_doc =
     Inr [JObj [(''timestamp'', JStr ''2016-04-12T00:00:00.000Z''),
                (''total_volume'', JNum 1000000), (''type'', JStr ''historical_total'')]]"
    by (simp add: formatDexVolumeData_def example_dex_doc_def get_def collection_timestamp_def
          historical_section_def example_point dex_section_def summary_section_def
          first_protocol_def and_then_def)
  from historical_total_example [OF w p, of no_coerce] w e show ?thesis by simp
qed

text \<open>
  C5. On a well-formed document the protocol TVL rule returns one record for each element
  of the list \<^verbatim>\<open>data\<close>, in order: the collection time and the fields of the element.
  On a document with no \<^verbatim>\<open>data\<close> field it returns the empty sequence.
\<close>

theorem tvl_count:
  "(wf_list_doc [''data''] doc \<and> list_at doc [''data''] = Some ps \<and> declared_time doc = Some t
      \<longrightarrow> formatProtocolTvlData doc =
            Inr (map (\<lambda>p. JObj ((''timestamp'', t) # selected tvl_fields p)) ps)
        \<and> (\<exists>out. formatProtocolTvlData doc = Inr out \<and> length out = length ps))
   \<and> (descend doc [''data''] = None \<longrightarrow> formatProtocolTvlData doc = Inr [])"
proof (intro conjI impI)
  assume a: "wf_list_doc [''data''] doc \<and> list_at doc [''data''] = Some ps \<and> declared_time doc = Some t"
  then have d: "dot doc ''data'' = JArr ps" "truthy doc"
    using list_at_dot [of doc "''data''" ps] by simp_all
  have "mapM (flat_record tvl_fields doc) ps =
          Inr (map (\<lambda>p. JObj ((''timestamp'', t) # selected tvl_fields p)) ps)"
    using a by (intro mapM_total flat_record_ok) (auto simp: wf_list_doc_def list_all_iff)
  then show r: "formatProtocolTvlData doc =
                  Inr (map (\<lambda>p. JObj ((''timestamp'', t) # selected tvl_fields p)) ps)"
    using d by (simp add: formatProtocolTvlData_def truthy_not_nullish)
  then show "\<exists>out. formatProtocolTvlData doc = Inr out \<and> length out = length ps" by simp
next
  assume "descend doc [''data''] = None"
  then have "list_at doc [''data''] = None" by (simp add: list_at_def)
  then have "\<not> isArray (dot doc ''data'')" by (rule list_at_None1) simp
  then show "formatProtocolTvlData doc = Inr []"
    by (simp add: formatProtocolTvlData_def truthy_not_nullish)
qed

theorem tvl_count_witness:
  "wf_list_doc [''data''] example_tvl_doc
   \<and> (\<exists>out. formatProtocolTvlData example_tvl_doc = Inr out \<and> length out = 2)
   \<and> descend (JObj [(''status'', JStr ''error'')]) [''data''] = None
   \<and> formatProtocolTvlData (JObj [(''status'', JStr ''error'')]) = Inr []"
proof -
  have w: "wf_list_doc [''data''] example_tvl_doc"
    and l: "list_at example_tvl_doc [''data''] =
              Some [JObj [(''name'', JStr ''Aave''), (''tvl'', JNum 5)], JObj []]"
    and t: "declared_time example_tvl_doc = Some (JStr ''2025-04-15T22:09:43.110634'')"
    by (simp_all add: wf_list_doc_def list_at_def declared_time_def example_tvl_doc_def)
  from tvl_count [of example_tvl_doc _ _] w l t
  have "\<exists>out. formatProtocolTvlData example_tvl_doc = Inr out \<and> length out = 2"
    by fastforce
  moreover have "formatProtocolTvlData (JObj [(''status'', JStr ''error'')]) = Inr []"
    using tvl_count [of "JObj [(''status'', JStr ''error'')]"] by simp
  ultimately show ?thesis using w by simp
qed

text \<open>
  C6. On a well-formed document the yield pool rule returns one record for each pool. Each
  of the three sub-fields of its \<^verbatim>\<open>predictions\<close> is the pool's own when the pool has it and
  \<^verbatim>\<open>undefined\<close> otherwise; a pool with no \<^verbatim>\<open>predictions\<close> field gets a record whose three
  sub-fields are all \<^verbatim>\<open>undefined\<close>.
\<close>

theorem yield_predictions:
  assumes "wf_list_doc [''data'', ''data''] doc" and "list_at doc [''data'', ''data''] = Some pools"
  shows "\<exists>out. formatYieldPoolData doc = Inr out \<and> length out = length pools \<and>
           (\<forall>i<length pools.
              (\<forall>k\<in>set prediction_fields.
                 dot (dot (out ! i) ''predictions'') k =
                   (case descend (pools ! i) [''predictions'', k] of Some v \<Rightarrow> v | None \<Rightarrow> JUndef))
              \<and> (descend (pools ! i) [''predictions''] = None \<longrightarrow>
                   dot (out ! i) ''predictions'' =
                     JObj [(''predictedClass'', JUndef), (''predictedProbability'', JUndef),
                           (''binnedConfidence'', JUndef)]))"
proof -
  from assms obtain t where t: "declared_time doc = Some t"
    and nn: "list_all (\<lambda>x. \<not> nullish x) pools"
    by (auto elim!: wf_list_docD)
  let ?rec = "\<lambda>pool. JObj ((''timestamp'', t) # selected pool_fields pool
                      @ [(''predictions'', predicted pool)])"
  have p: "dot (?rec pool) ''predictions'' = predicted pool" for pool
    by (simp add: selected_def pool_fields_def)
  have out: "formatYieldPoolData doc = Inr (map ?rec pools)"
    by (rule yield_output [OF t assms(2) nn])
  have "\<forall>i<length pools.
          (\<forall>k\<in>set prediction_fields.
             dot (dot (map ?rec pools ! i) ''predictions'') k =
               (case descend (pools ! i) [''predictions'', k] of Some v \<Rightarrow> v | None \<Rightarrow> JUndef))
          \<and> (descend (pools ! i) [''predictions''] = None \<longrightarrow>
               dot (map ?rec pools ! i) ''predictions'' =
                 JObj [(''predictedClass'', JUndef), (''predictedProbability'', JUndef),
                       (''binnedConfidence'', JUndef)])"
  proof (intro allI impI conjI ballI)
    fix i k
    assume "i < length pools" "k \<in> set prediction_fields"
    then show "dot (dot (map ?rec pools ! i) ''predictions'') k =
               (case descend (pools ! i) [''predictions'', k] of Some v \<Rightarrow> v | None \<Rightarrow> JUndef)"
      using p [of "pools ! i"] predicted_field [of k "pools ! i"] by simp
  next
    fix i
    assume "i < length pools" "descend (pools ! i) [''predictions''] = None"
    then show "dot (map ?rec pools ! i) ''predictions'' =
                 JObj [(''predictedClass'', JUndef), (''predictedProbability'', JUndef),
                       (''binnedConfidence'', JUndef)]"
      using p [of "pools ! i"] predicted_absent [of "pools ! i"] by simp
  qed
  with out show ?thesis by simp
qed

theorem yield_predictions_witness:
  "wf_list_doc [''data'', ''data''] example_pool_doc \<and>
   (\<exists>out. formatYieldPoolData example_pool_doc = Inr out \<and> length out = 2 \<and>
      dot (dot (out ! 0) ''predictions'') ''predictedClass'' = JStr ''Stable/Up'' \<and>
      dot (dot (out ! 0) ''predictions'') ''predictedProbability'' = JUndef \<and>
      dot (out ! 1) ''predictions'' =
        JObj [(''predictedClass'', JUndef), (''predictedProbability'', JUndef),
              (''binnedConfidence'', JUndef)])"
proof -
  let ?pools = "[JObj [(''chain'', JStr ''Ethereum''),
                     (''predictions'', JObj [(''predictedClass'', JStr ''Stable/Up'')])],
               JObj [(''chain'', JStr ''Arbitrum'')]]"
  have l: "list_at example_pool_doc [''data'', ''data''] = Some ?pools"
    by (simp add: example_pool_doc_def list_at_def)
  from yield_predictions [OF example_pool_wf l] obtain out where
    out: "formatYieldPoolData example_pool_doc = Inr out" "length out = length ?pools"
    and all: "\<forall>i<length ?pools.
              (\<forall>k\<in>set prediction_fields.
                 dot (dot (out ! i) ''predictions'') k =
                   (case descend (?pools ! i) [''predictions'', k] of Some v \<Rightarrow> v | None \<Rightarrow> JUndef))
              \<and> (descend (?pools ! i) [''predictions''] = None \<longrightarrow>
                   dot (out ! i) ''predictions'' =
                     JObj [(''predictedClass'', JUndef), (''predictedProbability'', JUndef),
                           (''binnedConfidence'', JUndef)])"
    by blast
  from all [rule_format, of 0] have
    "dot (dot (out ! 0) ''predictions'') ''predictedClass'' = JStr ''Stable/Up''"
    "dot (dot (out ! 0) ''predictions'') ''predictedProbability'' = JUndef"
    by (simp_all add: prediction_fields_def)
  moreover from all [rule_format, of 1] have
    "dot (out ! 1) ''predictions'' =
        JObj [(''predictedClass'', JUndef), (''predictedProbability'', JUndef),
              (''binnedConfidence'', JUndef)]"
    by simp
  ultimately show ?thesis using out example_pool_wf by simp
qed

text \<open>
  C7. On a well-formed document, with \<open>p0\<close> the first protocol entry: when \<open>p0\<close> is there
  (truthy) the output ends with one \<^verbatim>\<open>volume_summary\<close> record, which carries the nine
  totals and the five change figures of \<open>p0\<close>; otherwise it has none. No record before it
  is a \<^verbatim>\<open>volume_summary\<close>.
\<close>

theorem volume_summary_record:
  assumes "wf_dex_doc doc" and "declared_time doc = Some t"
    and "p0 = first_entry (dot doc ''data'')"
  shows "\<exists>others. formatDexVolumeData coerce doc =
             Inr (others @
               (if truthy p0
                then [JObj [(''timestamp'', t), (''type'', JStr ''volume_summary''),
                        (''total_24h'', dot p0 ''total24h''),
                        (''total_48h_to_24h'', dot p0 ''total48hto24h''),
                        (''total_7d'', dot p0 ''total7d''),
                        (''total_14d_to_7d'', dot p0 ''total14dto7d''),
                        (''total_30d'', dot p0 ''total30d''),
                        (''total_60d_to_30d'', dot p0 ''total60dto30d''),
                        (''total_1y'', dot p0 ''total1y''),
                        (''total_alltime'', dot p0 ''totalAllTime''),
                        (''average_1y'', dot p0 ''average1y''),
                        (''volume_24h_change'', dot p0 ''change_1d''),
                        (''volume_7d_change'', dot p0 ''change_7d''),
                        (''volume_1m_change'', dot p0 ''change_1m''),
                        (''volume_7d_over_7d_change'', dot p0 ''change_7dover7d''),
                        (''volume_30d_over_30d_change'', dot p0 ''change_30dover30d'')]]
                else []))
           \<and> (\<forall>r\<in>set others. \<not> has_type ''volume_summary'' r)"
proof (cases "truthy (dot doc ''data'')")
  case True
  from wf_dex_doc_output [OF assms(1,2) True, of coerce] obtain hist where
    out: "formatDexVolumeData coerce doc =
            Inr (hist @ dex_records t p0 (entries_of (dot p0 ''breakdown24h''))
                 @ (if truthy p0
                    then [JObj ([(''timestamp'', t), (''type'', JStr ''volume_summary'')]
                            @ selected summary_fields p0)]
                    else []))"
    and hist: "\<forall>r\<in>set hist. has_type ''historical_total'' r \<and> (\<exists>s. dot r ''timestamp'' = JStr s)"
    unfolding assms(3) by blast
  have "\<forall>r\<in>set (hist @ dex_records t p0 (entries_of (dot p0 ''breakdown24h''))).
          \<not> has_type ''volume_summary'' r"
    using hist by (auto simp: has_type_def dest!: dex_records_type)
  then show ?thesis
    unfolding out
    by (intro exI [of _ "hist @ dex_records t p0 (entries_of (dot p0 ''breakdown24h''))"])
       (simp add: selected_def summary_fields_def)
next
  case False
  then have "dot (dot doc ''data'') ''protocols'' = JUndef" by (rule falsy_dot) simp
  then have "\<not> truthy p0" by (simp add: assms(3) first_entry_def)
  moreover have "formatDexVolumeData coerce doc = Inr []"
    using False by (simp add: formatDexVolumeData_def truthy_not_nullish)
  ultimately show ?thesis by simp
qed

theorem volume_summary_record_witness:
  "wf_dex_doc example_breakdown_doc \<and>
   (\<exists>others. formatDexVolumeData no_coerce example_breakdown_doc =
      Inr (others @
        [JObj [(''timestamp'', JStr ''2025-04-15T22:09:43.495076''),
               (''type'', JStr ''volume_summary''),
               (''total_24h'', JNum 800), (''total_48h_to_24h'', JUndef),
               (''total_7d'', JUndef), (''total_14d_to_7d'', JUndef),
               (''total_30d'', JUndef), (''total_60d_to_30d'', JUndef),
               (''total_1y'', JUndef), (''total_alltime'', JUndef),
               (''average_1y'', JUndef), (''volume_24h_change'', JNum 2),
               (''volume_7d_change'', JUndef), (''volume_1m_change'', JUndef),
               (''volume_7d_over_7d_change'', JUndef),
               (''volume_30d_over_30d_change'', JUndef)]]))"
proof -
  let ?p0 = "JObj [(''breakdown24h'', JObj [(''ethereum'',
                       JObj [(''uniswap'', JNum 500), (''curve'', JNum 300)])]),
                     (''change_1d'', JNum 2), (''total24h'', JNum 800)]"
  have p: "?p0 = first_entry (dot example_breakdown_doc ''data'')"
    by (simp add: example_breakdown_doc_def first_entry_def)
  from volume_summary_record [OF example_breakdown_wf example_breakdown_time p, of no_coerce]
  obtain others where "formatDexVolumeData no_coerce example_breakdown_doc =
      Inr (others @
        [JObj [(''timestamp'', JStr ''2025-04-15T22:09:43.495076''),
               (''type'', JStr ''volume_summary''),
               (''total_24h'', JNum 800), (''total_48h_to_24h'', JUndef),
               (''total_7d'', JUndef), (''total_14d_to_7d'', JUndef),
               (''total_30d'', JUndef), (''total_60d_to_30d'', JUndef),
               (''total_1y'', JUndef), (''total_alltime'', JUndef),
               (''average_1y'', JUndef), (''volume_24h_change'', JNum 2),
               (''volume_7d_change'', JUndef), (''volume_1m_change'', JUndef),
               (''volume_7d_over_7d_change'', JUndef),
               (''volume_30d_over_30d_change'', JUndef)]])"
    by auto
  then show ?thesis using example_breakdown_wf by blast
qed

text \<open>
  C9. The summary of the aggregate fetch. Each count is the length of the list the payload
  holds (the payload itself for protocols, pools and stablecoins; its \<^verbatim>\<open>protocols\<close> field
  for DEX volumes and fees), and zero when the fetch failed, when the \<^verbatim>\<open>protocols\<close> field
  is missing, and when the payload is an object with no \<^verbatim>\<open>length\<close>.
\<close>

theorem fetchAllData_counts:
  assumes "s = fst (fetchAllData http stringify w)"
  shows "(http (BASE_URL @ ''/protocols'') = Inr (JArr xs1) \<longrightarrow>
            protocolCount s = JNum (of_nat (length xs1)))
       \<and> (http (BASE_URL @ ''/protocols'') = Inl m1 \<longrightarrow> protocolCount s = JNum 0)
       \<and> (http (BASE_URL @ ''/protocols'') = Inr (JObj kvs1) \<and> map_of kvs1 ''length'' = None \<longrightarrow>
            protocolCount s = JNum 0)
       \<and> (http (BASE_URL @ ''/overview/dexs'') = Inr p2 \<and> list_at p2 [''protocols''] = Some xs2 \<longrightarrow>
            dexCount s = JNum (of_nat (length xs2)))
       \<and> (http (BASE_URL @ ''/overview/dexs'') = Inl m2 \<longrightarrow> dexCount s = JNum 0)
       \<and> (http (BASE_URL @ ''/overview/dexs'') = Inr p2 \<and> descend p2 [''protocols''] = None \<longrightarrow>
            dexCount s = JNum 0)
       \<and> (http (YIELDS_URL @ ''/pools'') = Inr (JArr xs3) \<longrightarrow>
            poolCount s = JNum (of_nat (length xs3)))
       \<and> (http (YIELDS_URL @ ''/pools'') = Inl m3 \<longrightarrow> poolCount s = JNum 0)
       \<and> (http (YIELDS_URL @ ''/pools'') = Inr (JObj kvs3) \<and> map_of kvs3 ''length'' = None \<longrightarrow>
            poolCount s = JNum 0)
       \<and> (http (STABLECOINS_URL @ ''/stablecoins'') = Inr (JArr xs4) \<longrightarrow>
            stablecoinCount s = JNum (of_nat (length xs4)))
       \<and> (http (STABLECOINS_URL @ ''/stablecoins'') = Inl m4 \<longrightarrow> stablecoinCount s = JNum 0)
       \<and> (http (STABLECOINS_URL @ ''/stablecoins'') = Inr (JObj kvs4) \<and> map_of kvs4 ''length'' = None \<longrightarrow>
            stablecoinCount s = JNum 0)
       \<and> (http (BASE_URL @ ''/overview/fees'') = Inr p5 \<and> list_at p5 [''protocols''] = Some xs5 \<longrightarrow>
            feeProtocolCount s = JNum (of_nat (length xs5)))
       \<and> (http (BASE_URL @ ''/overview/fees'') = Inl m5 \<longrightarrow> feeProtocolCount s = JNum 0)
       \<and> (http (BASE_URL @ ''/overview/fees'') = Inr p5 \<and> descend p5 [''protocols''] = None \<longrightarrow>
            feeProtocolCount s = JNum 0)"
  unfolding assms fetchAllData_summary
  by (auto simp: count_list count_failed count_object count_nested_list count_nested_failed
        count_nested_missing simp del: of_nat_eq_0_iff)

theorem fetchAllData_counts_witness:
  "fst (fetchAllData http_ok example_stringify empty_world) =
     \<lparr>protocolCount = JNum 2, dexCount = JNum 3, poolCount = JNum 1,
      stablecoinCount = JNum 0, feeProtocolCount = JNum 1\<rparr>
   \<and> fst (fetchAllData http_down example_stringify empty_world) =
     \<lparr>protocolCount = JNum 0, dexCount = JNum 0, poolCount = JNum 0,
      stablecoinCount = JNum 0, feeProtocolCount = JNum 0\<rparr>
   \<and> fst (fetchAllData http_shapes example_stringify empty_world) =
     \<lparr>protocolCount = JNum 0, dexCount = JNum 0, poolCount = JNum 0,
      stablecoinCount = JNum 0, feeProtocolCount = JNum 0\<rparr>"
proof -
  have 1: "fst (fetchAllData http_ok example_stringify empty_world) =
     \<lparr>protocolCount = JNum 2, dexCount = JNum 3, poolCount = JNum 1,
      stablecoinCount = JNum 0, feeProtocolCount = JNum 1\<rparr>"
    using fetchAllData_counts [OF refl, where http = http_ok and stringify = example_stringify
        and w = empty_world and ?xs1.0 = "[JObj [], JObj []]"
        and ?p2.0 = "JObj [(''protocols'', JArr [JObj [], JObj [], JObj []])]"
        and ?xs2.0 = "[JObj [], JObj [], JObj []]" and ?xs3.0 = "[JObj []]" and ?xs4.0 = "[]"
        and ?p5.0 = "JObj [(''protocols'', JArr [JObj []])]" and ?xs5.0 = "[JObj []]"]
    by (cases "fst (fetchAllData http_ok example_stringify empty_world)")
       (simp add: http_ok_def BASE_URL_def YIELDS_URL_def STABLECOINS_URL_def list_at_def)
  have 2: "fst (fetchAllData http_down example_stringify empty_world) =
     \<lparr>protocolCount = JNum 0, dexCount = JNum 0, poolCount = JNum 0,
      stablecoinCount = JNum 0, feeProtocolCount = JNum 0\<rparr>"
    using fetchAllData_counts [OF refl, where http = http_down
        and stringify = example_stringify and w = empty_world and ?m1.0 = "''timeout''"
        and ?m2.0 = "''timeout''" and ?m3.0 = "''timeout''" and ?m4.0 = "''timeout''"
        and ?m5.0 = "''timeout''"]
    by (cases "fst (fetchAllData http_down example_stringify empty_world)")
       (simp add: http_down_def)
  have 3: "fst (fetchAllData http_shapes example_stringify empty_world) =
     \<lparr>protocolCount = JNum 0, dexCount = JNum 0, poolCount = JNum 0,
      stablecoinCount = JNum 0, feeProtocolCount = JNum 0\<rparr>"
    using fetchAllData_counts [OF refl, where http = http_shapes and stringify = example_stringify
        and w = empty_world and ?kvs1.0 = "[(''error'', JStr ''rate limited'')]"
        and ?p2.0 = "JObj [(''error'', JStr ''rate limited'')]"
        and ?kvs3.0 = "[(''status'', JStr ''success''), (''data'', JArr [JObj []])]"
        and ?kvs4.0 = "[(''peggedAssets'', JArr [JObj []])]"
        and ?p5.0 = "JObj [(''error'', JStr ''rate limited'')]"]
    by (cases "fst (fetchAllData http_shapes example_stringify empty_world)")
       (simp add: http_shapes_def BASE_URL_def YIELDS_URL_def STABLECOINS_URL_def)
  show ?thesis using 1 2 3 by simp
qed

text \<open>
  C10. A run of the driver from the world \<open>w\<close>, and a category \<open>c\<close> whose input reads as
  \<open>data\<close> (\<^verbatim>\<open>null\<close> when the file cannot be read or parsed). If the output file of \<open>c\<close>
  differs after the run, the rule returned a non-empty sequence and the file holds its
  serialisation. If the input is unreadable or the rule returned the empty sequence, the
  output file is as it was before, and a run that reaches the end (no rule raised) has
  logged \<^verbatim>\<open>Error: Could not read ...\<close> or \<^verbatim>\<open>Warning: No data found in ...\<close> for \<open>c\<close>.
\<close>

theorem driver_writes_only_nonempty:
  assumes "processAllData parse stringify coerce w = (r, w')"
    and "c \<in> set (dataFiles coerce)"
    and "data = fst (readJsonFile parse (inputFile c) w)"
  shows "(files w' (outputFile c) \<noteq> files w (outputFile c) \<longrightarrow>
            truthy data \<and>
            (\<exists>recs. processor c data = Inr recs \<and> recs \<noteq> [] \<and>
                    files w' (outputFile c) = Some (stringify (JArr recs))))
       \<and> (\<not> truthy data \<or> processor c data = Inr [] \<longrightarrow>
            files w' (outputFile c) = files w (outputFile c))
       \<and> (r = None \<and> \<not> truthy data \<longrightarrow>
            Info (''Error: Could not read '' @ inputFile c) \<in> set (console w'))
       \<and> (r = None \<and> truthy data \<and> processor c data = Inr [] \<longrightarrow>
            Info (''Warning: No data found in '' @ inputFile c) \<in> set (console w'))"
proof -
  let ?w0 = "ensure_dir ''./raw_data'' w"
  let ?cs = "dataFiles coerce"
  let ?w1 = "snd (process_entries parse stringify ?cs ?w0)"
  have w': "w' = snd (processAllData parse stringify coerce w)"
    and r: "r = fst (processAllData parse stringify coerce w)"
    using assms(1) by simp_all
  have f: "files w' = files ?w1" unfolding w' by (rule processAllData_files)
  have d: "data = fst (readJsonFile parse (inputFile c) ?w0)"
    unfolding assms(3) by (rule readJsonFile_indep [symmetric]) simp
  have wr: "written parse stringify c ?w0 =
              (if truthy data
               then (case processor c data of
                       Inr recs \<Rightarrow> if recs \<noteq> [] then Some (stringify (JArr recs)) else None
                     | Inl e \<Rightarrow> None)
               else None)"
    by (simp add: written_def d)
  have inj: "c' = c" if "c' \<in> set ?cs" "outputFile c = outputFile c'" for c'
    using dataFiles_paths(1) [of coerce] that assms(2)
    by (auto simp: distinct_map dest: inj_onD)
  have 1: "truthy data \<and> (\<exists>recs. processor c data = Inr recs \<and> recs \<noteq> [] \<and>
                    files w' (outputFile c) = Some (stringify (JArr recs)))"
    if "files w' (outputFile c) \<noteq> files w (outputFile c)"
  proof -
    from process_entries_files [OF dataFiles_paths, of parse stringify coerce ?w0 "outputFile c"] that
    obtain c' s where "c' \<in> set ?cs" "outputFile c = outputFile c'"
      "written parse stringify c' ?w0 = Some s" "files ?w1 (outputFile c) = Some s"
      unfolding f by auto
    then have "written parse stringify c ?w0 = Some s" using inj by blast
    then show ?thesis
      unfolding wr f using \<open>files ?w1 (outputFile c) = Some s\<close>
      by (auto split: if_splits sum.splits)
  qed
  have 2: "files w' (outputFile c) = files w (outputFile c)"
    if "\<not> truthy data \<or> processor c data = Inr []"
  proof (rule ccontr)
    assume "files w' (outputFile c) \<noteq> files w (outputFile c)"
    from 1 [OF this] that show False by auto
  qed
  have 3: "(\<not> truthy data \<longrightarrow>
            Info (''Error: Could not read '' @ inputFile c) \<in> set (console w'))
       \<and> (truthy data \<and> processor c data = Inr [] \<longrightarrow>
            Info (''Warning: No data found in '' @ inputFile c) \<in> set (console w'))"
    if "r = None"
  proof -
    have "fst (process_entries parse stringify ?cs ?w0) = None"
      using that r processAllData_None by simp
    from process_entries_warns [OF this dataFiles_paths(2) assms(2) d]
    show ?thesis
      unfolding w' using processAllData_console [of parse stringify coerce w] by blast
  qed
  show ?thesis using 1 2 3 by blast
qed

theorem driver_writes_only_nonempty_witness:
  "fst (processAllData example_parse example_stringify no_coerce example_world) = None
   \<and> (\<exists>recs. formatProtocolTvlData example_tvl_doc = Inr recs \<and> recs \<noteq> [] \<and>
        files (snd (processAllData example_parse example_stringify no_coerce example_world))
          ''raw_data/protocols_tvl_raw.json'' = Some ''new'')
   \<and> formatDexVolumeData no_coerce (JObj []) = Inr []
   \<and> files (snd (processAllData example_parse example_stringify no_coerce example_world))
        ''raw_data/dex_volumes_raw.json'' = Some ''old''
   \<and> Info ''Warning: No data found in data/dex/volumes/volumes_2025-04-15T22-09-43.495076.json''
        \<in> set (console (snd (processAllData example_parse example_stringify no_coerce example_world)))
   \<and> Info ''Error: Could not read data/yields/pools/pools_2025-04-15T22-09-44.415408.json''
        \<in> set (console (snd (processAllData example_parse example_stringify no_coerce example_world)))"
proof -
  let ?run = "processAllData example_parse example_stringify no_coerce example_world"
  let ?tvl = "\<lparr>inputFile = ''data/protocols/tvl/tvl_2025-04-15T22-09-43.110634.json'',
       outputFile = ''raw_data/protocols_tvl_raw.json'',
       processor = formatProtocolTvlData\<rparr>"
  let ?dex = "\<lparr>inputFile = ''data/dex/volumes/volumes_2025-04-15T22-09-43.495076.json'',
       outputFile = ''raw_data/dex_volumes_raw.json'',
       processor = formatDexVolumeData no_coerce\<rparr>"
  let ?pools = "\<lparr>inputFile = ''data/yields/pools/pools_2025-04-15T22-09-44.415408.json'',
       outputFile = ''raw_data/yield_pools_raw.json'',
       processor = formatYieldPoolData\<rparr>"
  have p: "?run = (fst ?run, snd ?run)" by simp
  have m: "?tvl \<in> set (dataFiles no_coerce)" "?dex \<in> set (dataFiles no_coerce)"
    "?pools \<in> set (dataFiles no_coerce)"
    by (simp_all add: dataFiles_def)
  have d1: "example_tvl_doc = fst (readJsonFile example_parse (inputFile ?tvl) example_world)"
    and d2: "JObj [] = fst (readJsonFile example_parse (inputFile ?dex) example_world)"
    and d3: "JNull = fst (readJsonFile example_parse (inputFile ?pools) example_world)"
    by (simp_all add: readJsonFile_def example_world_def example_parse_def)
  have e: "formatDexVolumeData no_coerce (JObj []) = Inr []"
    by (simp add: formatDexVolumeData_def get_def)
  have old: "files example_world ''raw_data/protocols_tvl_raw.json'' = None"
    "files example_world ''raw_data/dex_volumes_raw.json'' = Some ''old''"
    by (simp_all add: example_world_def)
  from driver_writes_only_nonempty [OF p m(1) d1] run_tvl old(1)
  have 1: "\<exists>recs. formatProtocolTvlData example_tvl_doc = Inr recs \<and> recs \<noteq> [] \<and>
        files (snd ?run) ''raw_data/protocols_tvl_raw.json'' = Some ''new''"
    by auto
  from driver_writes_only_nonempty [OF p m(2) d2] run_ok e old(2)
  have 2: "files (snd ?run) ''raw_data/dex_volumes_raw.json'' = Some ''old''"
    "Info ''Warning: No data found in data/dex/volumes/volumes_2025-04-15T22-09-43.495076.json''
        \<in> set (console (snd ?run))"
    by simp_all
  from driver_writes_only_nonempty [OF p m(3) d3] run_ok
  have 3: "Info ''Error: Could not read data/yields/pools/pools_2025-04-15T22-09-44.415408.json''
        \<in> set (console (snd ?run))"
    by simp
  show ?thesis using run_ok 1 e 2 3 by simp
qed

end
